theory Spec2Isabelle
  imports Complex_Main "HOL-Library.Char_ord" "HOL-Library.List_Lexorder"
    "HOL-Library.Product_Lexorder" "HOL-Library.Multiset"
begin

section \<open>Python strings and integers\<close>

text \<open>
  Strings are byte strings: the model covers ASCII text, where Python's \<^verbatim>\<open>str.strip\<close>,
  \<^verbatim>\<open>str.lower\<close> and string comparison act as below. Comparison of strings is the
  lexicographic order of their characters (\<open>List_Lexorder\<close> over \<open>Char_ord\<close>), and
  tuples compare lexicographically (\<open>Product_Lexorder\<close>), as in Python.
\<close>

definition is_space :: "char \<Rightarrow> bool" where
  "is_space c = (c \<in> set [CHR 0x09, CHR 0x0A, CHR 0x0B, CHR 0x0C, CHR 0x0D,
                           CHR 0x1C, CHR 0x1D, CHR 0x1E, CHR 0x1F, CHR '' ''])"

definition strip :: "string \<Rightarrow> string" where
  "strip s = rev (dropWhile is_space (rev (dropWhile is_space s)))"

definition lower_char :: "char \<Rightarrow> char" where
  "lower_char c =
     (if CHR ''A'' \<le> c \<and> c \<le> CHR ''Z'' then char_of (of_char c + (32::nat)) else c)"

definition lower :: "string \<Rightarrow> string" where
  "lower s = map lower_char s"

definition is_digit :: "char \<Rightarrow> bool" where
  "is_digit c = (CHR ''0'' \<le> c \<and> c \<le> CHR ''9'')"

definition digit_val :: "char \<Rightarrow> nat" where
  "digit_val c = of_char c - 48"

text \<open>
  \<^verbatim>\<open>int(s)\<close> on a string: surrounding whitespace is dropped, one sign is allowed, then
  decimal digits with single underscores between digits. \<open>None\<close> stands for
  \<^verbatim>\<open>ValueError\<close>. On ASCII text \<^verbatim>\<open>int\<close> drops the six blanks of C only (not the
  separators 0x1C to 0x1F, which \<^verbatim>\<open>str.strip\<close> drops), and it refuses a string of more
  than 4300 digits.
\<close>

definition is_int_space :: "char \<Rightarrow> bool" where
  "is_int_space c = (c \<in> set [CHR 0x09, CHR 0x0A, CHR 0x0B, CHR 0x0C, CHR 0x0D, CHR '' ''])"

definition int_strip :: "string \<Rightarrow> string" where
  "int_strip s = rev (dropWhile is_int_space (rev (dropWhile is_int_space s)))"

definition max_str_digits :: nat where
  "max_str_digits = 4300"

fun parse_digits :: "bool \<Rightarrow> nat \<Rightarrow> string \<Rightarrow> nat option" where
  "parse_digits prev acc [] = (if prev then Some acc else None)"
| "parse_digits prev acc (c # cs) =
     (if is_digit c then parse_digits True (10 * acc + digit_val c) cs
      else if c = CHR ''_'' \<and> prev \<and> (case cs of [] \<Rightarrow> False | d # _ \<Rightarrow> is_digit d)
        then parse_digits False acc cs
      else None)"

definition py_int :: "string \<Rightarrow> int option" where
  "py_int s =
     (case int_strip s of
        [] \<Rightarrow> None
      | c # cs \<Rightarrow>
          if max_str_digits < length (filter is_digit (c # cs)) then None
          else if c = CHR ''-'' then map_option (\<lambda>n. - int n) (parse_digits False 0 cs)
          else if c = CHR ''+'' then map_option int (parse_digits False 0 cs)
          else map_option int (parse_digits False 0 (c # cs)))"

text \<open>\<^verbatim>\<open>str(n)\<close> for a non-negative integer (primary keys are positive).\<close>

definition digit_char :: "nat \<Rightarrow> char" where
  "digit_char d = char_of (48 + d)"

function str_nat :: "nat \<Rightarrow> string" where
  "str_nat n = (if n < 10 then [digit_char n] else str_nat (n div 10) @ [digit_char (n mod 10)])"
  by pat_completeness auto
termination
  by (relation "measure id") auto

declare str_nat.simps [simp del]

text \<open>
  \<^verbatim>\<open>needle in hay\<close>: the needle occurs as a contiguous run of the hay.
\<close>

fun contains :: "string \<Rightarrow> string \<Rightarrow> bool" where
  "contains needle [] = (needle = [])"
| "contains needle (h # hay) =
     (take (length needle) (h # hay) = needle \<or> contains needle hay)"

text \<open>
  \<^verbatim>\<open>xs.sort(key=k, reverse=True)\<close>: a stable sort into descending key order; elements
  with equal keys keep their order (the list is reversed, sorted stably, reversed
  again).
\<close>

definition sort_reverse :: "('a \<Rightarrow> 'k::linorder) \<Rightarrow> 'a list \<Rightarrow> 'a list" where
  "sort_reverse k xs = rev (sort_key k (rev xs))"

text \<open>\<^verbatim>\<open>xs[offset : offset + limit]\<close> for non-negative bounds.\<close>

definition slice :: "int \<Rightarrow> int \<Rightarrow> 'a list \<Rightarrow> 'a list" where
  "slice offset limit xs = take (nat limit) (drop (nat offset) xs)"

section \<open>Dates\<close>

record date =
  year :: nat
  month :: nat
  day :: nat

definition date_key :: "date \<Rightarrow> nat \<times> nat \<times> nat" where
  "date_key d = (year d, month d, day d)"

definition date_le :: "date \<Rightarrow> date \<Rightarrow> bool" where
  "date_le a b = (date_key a \<le> date_key b)"

definition zfill :: "nat \<Rightarrow> string \<Rightarrow> string" where
  "zfill w s = replicate (w - length s) CHR ''0'' @ s"

text \<open>\<^verbatim>\<open>date.isoformat()\<close>, the form in which a serializer renders a date.\<close>

definition isoformat :: "date \<Rightarrow> string" where
  "isoformat d =
     zfill 4 (str_nat (year d)) @ ''-'' @ zfill 2 (str_nat (month d)) @ ''-''
       @ zfill 2 (str_nat (day d))"

section \<open>Models (core/models.py)\<close>

text \<open>
  A \<^verbatim>\<open>DecimalField\<close> holds the rational number its decimal denotes. The \<^verbatim>\<open>user\<close>
  foreign key is nullable. A table is the list of its rows; the counters give the
  next primary key of each table.
\<close>

record Income =
  i_id :: nat
  i_user :: "nat option"
  i_amount :: rat
  i_date :: date
  i_source :: string
  i_remark :: string
  i_created_at :: nat

record Budget =
  b_id :: nat
  b_user :: "nat option"
  b_category :: string
  b_subcategory :: string
  b_amount :: rat
  b_date :: date
  b_created_at :: nat

record Expense =
  e_id :: nat
  e_user :: "nat option"
  e_date :: date
  e_amount :: rat
  e_remark :: string
  e_type :: string
  e_category :: string
  e_created_at :: nat

record db =
  incomes :: "Income list"
  expenses :: "Expense list"
  budgets :: "Budget list"
  next_income_id :: nat
  next_expense_id :: nat
  next_budget_id :: nat

text \<open>Primary keys are unique, and the counters lie above every key in use.\<close>

definition wf_db :: "db \<Rightarrow> bool" where
  "wf_db d =
     (distinct (map i_id (incomes d)) \<and> distinct (map e_id (expenses d))
      \<and> distinct (map b_id (budgets d))
      \<and> list_all (\<lambda>r. i_id r < next_income_id d) (incomes d)
      \<and> list_all (\<lambda>r. e_id r < next_expense_id d) (expenses d)
      \<and> list_all (\<lambda>r. b_id r < next_budget_id d) (budgets d))"

section \<open>Requests, responses and the libraries' part\<close>

text \<open>
  What the views take from outside the repository is a parameter: the parsers of the
  standard library, of Django and of the REST framework, the clock, and floating
  point (a type \<open>'f\<close> with the conversion from a decimal and the subtraction).
\<close>

record 'f env =
  strptime_ymd :: "string \<Rightarrow> date option"
  to_decimal :: "string \<Rightarrow> rat option"
  decimal_field :: "nat \<Rightarrow> nat \<Rightarrow> string \<Rightarrow> string list + rat"
  date_field :: "string \<Rightarrow> string list + date"
  today :: date
  now :: nat
  to_float :: "rat \<Rightarrow> 'f"
  float_sub :: "'f \<Rightarrow> 'f \<Rightarrow> 'f"

text \<open>
  A request that passed authentication: \<open>req_user\<close> is the caller's id,
  \<open>GET\<close> the query parameters and \<open>data\<close> the body fields (as strings).
\<close>

record request =
  req_user :: nat
  req_method :: string
  GET :: "string \<rightharpoonup> string"
  data :: "string \<rightharpoonup> string"

type_synonym errors = "(string \<times> string list) list"

datatype 'r body =
    Page nat "'r list"
  | Rows "'r list"
  | Obj 'r
  | Errors errors
  | Detail string

datatype 'r response = Response "'r body" nat

fun status :: "'r response \<Rightarrow> nat" where
  "status (Response b s) = s"

fun body_of :: "'r response \<Rightarrow> 'r body" where
  "body_of (Response b s) = b"

text \<open>Exceptions that no view catches (the framework answers 500).\<close>

datatype exn = ValidationError | MultipleObjectsReturned | IntegrityError

abbreviation method_not_allowed :: "'r response" where
  "method_not_allowed \<equiv> Response (Detail ''Method not allowed.'') 405"

section \<open>Helpers (core/views.py)\<close>

definition get_or :: "(string \<rightharpoonup> string) \<Rightarrow> string \<Rightarrow> string \<Rightarrow> string" where
  "get_or m k dflt = (case m k of None \<Rightarrow> dflt | Some v \<Rightarrow> v)"

text \<open>\<^verbatim>\<open>m.get(k) or dflt\<close>: the default also replaces an empty string.\<close>

definition get_or_empty :: "(string \<rightharpoonup> string) \<Rightarrow> string \<Rightarrow> string \<Rightarrow> string" where
  "get_or_empty m k dflt = (case m k of None \<Rightarrow> dflt | Some v \<Rightarrow> if v = [] then dflt else v)"

definition parse_date :: "'f env \<Rightarrow> string option \<Rightarrow> date option" where
  "parse_date E s =
     (case s of
        None \<Rightarrow> None
      | Some v \<Rightarrow> if v = [] then None else strptime_ymd E (take 10 v))"

definition parse_pagination :: "request \<Rightarrow> int \<times> int" where
  "parse_pagination req =
     (let limit = (case py_int (get_or (GET req) ''limit'' ''50'') of
                     None \<Rightarrow> 50 | Some n \<Rightarrow> n);
          offset = (case py_int (get_or (GET req) ''offset'' ''0'') of
                      None \<Rightarrow> 0 | Some n \<Rightarrow> n)
      in (max 1 (min limit 200), max 0 offset))"

subsection \<open>Type slugs and stored labels\<close>

definition SLUG_TO_TYPES :: "(string \<times> string list) list" where
  "SLUG_TO_TYPES =
     [(''expense'', [''Expense'', ''Expenses'', '''']),
      (''savings'', [''Savings'', ''Saving'']),
      (''emis'', [''EMIs'', ''EMI'']),
      (''loans&advance'', [''Loans&Advance'', ''Loans & Advance'', ''Loan'', ''Loans'']),
      (''other'', [''Other''])]"

definition ALL_SLUGS :: "string list" where
  "ALL_SLUGS = [''income'', ''expense'', ''savings'', ''emis'', ''loans&advance'', ''other'']"

definition labels_for_slug :: "string \<Rightarrow> string list" where
  "labels_for_slug slug = (case map_of SLUG_TO_TYPES slug of None \<Rightarrow> [] | Some ls \<Rightarrow> ls)"

definition present_type_slugs :: "db \<Rightarrow> nat \<Rightarrow> string list" where
  "present_type_slugs d u =
     (let slugs0 = (if filter (\<lambda>r. i_user r = Some u) (incomes d) \<noteq> [] then [''income''] else []);
          existing_types = map (\<lambda>r. strip (e_type r)) (filter (\<lambda>r. e_user r = Some u) (expenses d));
          slugs1 = slugs0 @ filter (\<lambda>slug. list_ex (\<lambda>t. t \<in> set (labels_for_slug slug)) existing_types)
                              [''expense'', ''savings'', ''emis'', ''loans&advance'', ''other''];
          slugs = (if slugs1 = [] then ALL_SLUGS else slugs1)
      in ''all'' # slugs)"

subsection \<open>Query-set lookups\<close>

definition icontains :: "string \<Rightarrow> string \<Rightarrow> bool" where
  "icontains field_value needle = contains (lower needle) (lower field_value)"

definition iexact :: "string \<Rightarrow> string \<Rightarrow> bool" where
  "iexact field_value v = (lower field_value = lower v)"

definition opt_filter :: "'a option \<Rightarrow> ('a \<Rightarrow> 'r \<Rightarrow> bool) \<Rightarrow> 'r list \<Rightarrow> 'r list" where
  "opt_filter p f qs = (case p of None \<Rightarrow> qs | Some v \<Rightarrow> filter (f v) qs)"

text \<open>
  \<^verbatim>\<open>if s: qs = qs.filter(...)\<close> for a string parameter: the filter applies when the
  string is not empty.
\<close>

definition str_filter :: "string \<Rightarrow> (string \<Rightarrow> 'r \<Rightarrow> bool) \<Rightarrow> 'r list \<Rightarrow> 'r list" where
  "str_filter s f qs = (if s = [] then qs else filter (f s) qs)"

text \<open>
  A bound on the amount is handed to the query as the string it came in; a string
  that is no decimal raises \<^verbatim>\<open>ValidationError\<close> when the filter is built.
\<close>

definition amount_bound :: "'f env \<Rightarrow> string option \<Rightarrow> exn + rat option" where
  "amount_bound E p =
     (case p of
        None \<Rightarrow> Inr None
      | Some s \<Rightarrow>
          if s = [] then Inr None
          else (case to_decimal E s of None \<Rightarrow> Inl ValidationError | Some v \<Rightarrow> Inr (Some v)))"

text \<open>\<^verbatim>\<open>order_by("-date", "-id")\<close>, also the default ordering of the three models.\<close>

definition order_desc :: "('r \<Rightarrow> date) \<Rightarrow> ('r \<Rightarrow> nat) \<Rightarrow> 'r list \<Rightarrow> 'r list" where
  "order_desc d i qs = rev (sort_key (\<lambda>r. (date_key (d r), i r)) qs)"

datatype 'r lookup = DoesNotExist | Found 'r | Multiple

definition get_pk :: "('r \<Rightarrow> nat) \<Rightarrow> nat \<Rightarrow> 'r list \<Rightarrow> 'r lookup" where
  "get_pk i pk qs =
     (case filter (\<lambda>r. i r = pk) qs of
        [] \<Rightarrow> DoesNotExist
      | [r] \<Rightarrow> Found r
      | _ \<Rightarrow> Multiple)"

section \<open>Serializers (core/serializers.py)\<close>

text \<open>
  The data given to a serializer maps a field name to its value, \<open>Some None\<close> being
  a null. The validated attributes hold the fields that were given. The framework
  validates the fields one by one, collecting their errors; only when no field
  failed does it call the serializer's own \<^verbatim>\<open>validate\<close>. The fields \<^verbatim>\<open>id\<close>,
  \<^verbatim>\<open>user\<close> and \<^verbatim>\<open>created_at\<close> are read-only: a value given for them is ignored.
\<close>

type_synonym payload = "string \<rightharpoonup> string option"

definition CharField :: "nat \<Rightarrow> bool \<Rightarrow> string \<Rightarrow> string list + string" where
  "CharField max_length allow_blank s =
     (let v = strip s;
          errs = (if length v > max_length
                  then [''Ensure this field has no more than '' @ str_nat max_length @ '' characters.'']
                  else [])
               @ (if CHR 0x00 \<in> set v then [''Null characters are not allowed.''] else [])
      in if v = [] then (if allow_blank then Inr [] else Inl [''This field may not be blank.''])
         else if errs = [] then Inr v else Inl errs)"

definition run_field ::
  "bool \<Rightarrow> bool \<Rightarrow> (string \<Rightarrow> string list + 'a) \<Rightarrow> string option option \<Rightarrow> string list + 'a option" where
  "run_field partial required f v =
     (case v of
        None \<Rightarrow> if \<not> partial \<and> required then Inl [''This field is required.''] else Inr None
      | Some None \<Rightarrow> Inl [''This field may not be null.'']
      | Some (Some s) \<Rightarrow> (case f s of Inl msgs \<Rightarrow> Inl msgs | Inr x \<Rightarrow> Inr (Some x)))"

definition field_errors :: "string \<Rightarrow> string list + 'a \<Rightarrow> errors" where
  "field_errors name r = (case r of Inl msgs \<Rightarrow> [(name, msgs)] | Inr _ \<Rightarrow> [])"

definition field_value :: "string list + 'a option \<Rightarrow> 'a option" where
  "field_value r = (case r of Inl _ \<Rightarrow> None | Inr v \<Rightarrow> v)"

definition or_else :: "'a option \<Rightarrow> 'a \<Rightarrow> 'a" where
  "or_else v dflt = (case v of None \<Rightarrow> dflt | Some x \<Rightarrow> x)"

subsection \<open>IncomeSerializer\<close>

record income_attrs =
  ia_amount :: "rat option"
  ia_date :: "date option"
  ia_source :: "string option"
  ia_remark :: "string option"

definition IncomeSerializer_is_valid :: "'f env \<Rightarrow> bool \<Rightarrow> payload \<Rightarrow> errors + income_attrs" where
  "IncomeSerializer_is_valid E partial p =
     (let ra = run_field partial True (decimal_field E 12 2) (p ''amount'');
          rd = run_field partial True (date_field E) (p ''date'');
          rs = run_field partial False (CharField 80 True) (p ''source'');
          rr = run_field partial False (CharField 255 True) (p ''remark'');
          errs = field_errors ''amount'' ra @ field_errors ''date'' rd
               @ field_errors ''source'' rs @ field_errors ''remark'' rr
      in if errs \<noteq> [] then Inl errs
         else Inr \<lparr>ia_amount = field_value ra, ia_date = field_value rd,
                   ia_source = field_value rs, ia_remark = field_value rr\<rparr>)"

text \<open>\<^verbatim>\<open>ser.save(user=request.user)\<close> on a new row, and \<^verbatim>\<open>ser.save()\<close> on a stored one.\<close>

definition income_create :: "'f env \<Rightarrow> db \<Rightarrow> nat \<Rightarrow> income_attrs \<Rightarrow> exn + db \<times> Income" where
  "income_create E d u a =
     (case (ia_amount a, ia_date a) of
        (Some amt, Some dt) \<Rightarrow>
          (let obj = \<lparr>i_id = next_income_id d, i_user = Some u, i_amount = amt, i_date = dt,
                      i_source = or_else (ia_source a) [], i_remark = or_else (ia_remark a) [],
                      i_created_at = now E\<rparr>
           in Inr (d\<lparr>incomes := incomes d @ [obj], next_income_id := Suc (next_income_id d)\<rparr>, obj))
      | _ \<Rightarrow> Inl IntegrityError)"

definition income_apply :: "Income \<Rightarrow> income_attrs \<Rightarrow> Income" where
  "income_apply obj a =
     obj\<lparr>i_amount := or_else (ia_amount a) (i_amount obj),
         i_date := or_else (ia_date a) (i_date obj),
         i_source := or_else (ia_source a) (i_source obj),
         i_remark := or_else (ia_remark a) (i_remark obj)\<rparr>"

definition income_update :: "db \<Rightarrow> Income \<Rightarrow> income_attrs \<Rightarrow> db \<times> Income" where
  "income_update d obj a =
     (let obj' = income_apply obj a
      in (d\<lparr>incomes := map (\<lambda>r. if i_id r = i_id obj then obj' else r) (incomes d)\<rparr>, obj'))"

subsection \<open>BudgetSerializer\<close>

record budget_attrs =
  ba_category :: "string option"
  ba_subcategory :: "string option"
  ba_amount :: "rat option"
  ba_date :: "date option"

definition BudgetSerializer_is_valid :: "'f env \<Rightarrow> bool \<Rightarrow> payload \<Rightarrow> errors + budget_attrs" where
  "BudgetSerializer_is_valid E partial p =
     (let rc = run_field partial True (CharField 100 False) (p ''category'');
          rs = run_field partial True (CharField 100 False) (p ''subcategory'');
          ra = run_field partial True (decimal_field E 10 2) (p ''amount'');
          rd = run_field partial True (date_field E) (p ''date'');
          errs = field_errors ''category'' rc @ field_errors ''subcategory'' rs
               @ field_errors ''amount'' ra @ field_errors ''date'' rd
      in if errs \<noteq> [] then Inl errs
         else Inr \<lparr>ba_category = field_value rc, ba_subcategory = field_value rs,
                   ba_amount = field_value ra, ba_date = field_value rd\<rparr>)"

definition budget_create :: "'f env \<Rightarrow> db \<Rightarrow> nat \<Rightarrow> budget_attrs \<Rightarrow> exn + db \<times> Budget" where
  "budget_create E d u a =
     (case (ba_category a, ba_subcategory a, ba_amount a, ba_date a) of
        (Some c, Some s, Some amt, Some dt) \<Rightarrow>
          (let obj = \<lparr>b_id = next_budget_id d, b_user = Some u, b_category = c,
                      b_subcategory = s, b_amount = amt, b_date = dt, b_created_at = now E\<rparr>
           in Inr (d\<lparr>budgets := budgets d @ [obj], next_budget_id := Suc (next_budget_id d)\<rparr>, obj))
      | _ \<Rightarrow> Inl IntegrityError)"

subsection \<open>ExpenseSerializer\<close>

record expense_attrs =
  ea_date :: "date option"
  ea_amount :: "rat option"
  ea_remark :: "string option"
  ea_type :: "string option"
  ea_category :: "string option"

definition category_required_types :: "string list" where
  "category_required_types =
     [''expense'', ''saving'', ''savings'', ''emis'', ''emi'', ''loans&advance'', ''loan'', ''loans'']"

definition ExpenseSerializer_validate :: "expense_attrs \<Rightarrow> errors + expense_attrs" where
  "ExpenseSerializer_validate attrs =
     (let t0 = strip (or_else (ea_type attrs) []);
          t = (if t0 = [] then ''Expense'' else t0);
          c = strip (or_else (ea_category attrs) []);
          t_l = lower t
      in if t_l = ''other''
         then Inr (attrs\<lparr>ea_type := Some ''Other'',
                         ea_category := Some (if c = [] then ''Other'' else c)\<rparr>)
         else if t_l \<in> set category_required_types \<and> c = []
         then Inl [(''category'', [''Category is required.''])]
         else Inr (attrs\<lparr>ea_type := Some t, ea_category := Some c\<rparr>))"

definition ExpenseSerializer_fields :: "'f env \<Rightarrow> bool \<Rightarrow> payload \<Rightarrow> errors + expense_attrs" where
  "ExpenseSerializer_fields E partial p =
     (let rd = run_field partial True (date_field E) (p ''date'');
          ra = run_field partial True (decimal_field E 10 2) (p ''amount'');
          rr = run_field partial False (CharField 255 True) (p ''remark'');
          rt = run_field partial False (CharField 100 True) (p ''type'');
          rc = run_field partial False (CharField 100 True) (p ''category'');
          errs = field_errors ''date'' rd @ field_errors ''amount'' ra
               @ field_errors ''remark'' rr @ field_errors ''type'' rt
               @ field_errors ''category'' rc
      in if errs \<noteq> [] then Inl errs
         else Inr \<lparr>ea_date = field_value rd, ea_amount = field_value ra,
                   ea_remark = field_value rr, ea_type = field_value rt,
                   ea_category = field_value rc\<rparr>)"

definition ExpenseSerializer_is_valid :: "'f env \<Rightarrow> bool \<Rightarrow> payload \<Rightarrow> errors + expense_attrs" where
  "ExpenseSerializer_is_valid E partial p =
     (case ExpenseSerializer_fields E partial p of
        Inl errs \<Rightarrow> Inl errs
      | Inr attrs \<Rightarrow> ExpenseSerializer_validate attrs)"

definition expense_create :: "'f env \<Rightarrow> db \<Rightarrow> nat \<Rightarrow> expense_attrs \<Rightarrow> exn + db \<times> Expense" where
  "expense_create E d u a =
     (case (ea_date a, ea_amount a) of
        (Some dt, Some amt) \<Rightarrow>
          (let obj = \<lparr>e_id = next_expense_id d, e_user = Some u, e_date = dt, e_amount = amt,
                      e_remark = or_else (ea_remark a) [], e_type = or_else (ea_type a) ''Expense'',
                      e_category = or_else (ea_category a) [], e_created_at = now E\<rparr>
           in Inr (d\<lparr>expenses := expenses d @ [obj], next_expense_id := Suc (next_expense_id d)\<rparr>, obj))
      | _ \<Rightarrow> Inl IntegrityError)"

definition expense_apply :: "Expense \<Rightarrow> expense_attrs \<Rightarrow> Expense" where
  "expense_apply obj a =
     obj\<lparr>e_date := or_else (ea_date a) (e_date obj),
         e_amount := or_else (ea_amount a) (e_amount obj),
         e_remark := or_else (ea_remark a) (e_remark obj),
         e_type := or_else (ea_type a) (e_type obj),
         e_category := or_else (ea_category a) (e_category obj)\<rparr>"

definition expense_update :: "db \<Rightarrow> Expense \<Rightarrow> expense_attrs \<Rightarrow> db \<times> Expense" where
  "expense_update d obj a =
     (let obj' = expense_apply obj a
      in (d\<lparr>expenses := map (\<lambda>r. if e_id r = e_id obj then obj' else r) (expenses d)\<rparr>, obj'))"

section \<open>Views (core/views.py)\<close>

text \<open>
  Both bounds on the amount are read before the query is built. The source builds the
  two filters one after the other, and each raises on a string that is no decimal, so
  a view raises exactly when one of the two given bounds is no decimal.
\<close>

definition amount_bounds :: "'f env \<Rightarrow> request \<Rightarrow> exn + rat option \<times> rat option" where
  "amount_bounds E req =
     (case amount_bound E (GET req ''min_amount'') of
        Inl x \<Rightarrow> Inl x
      | Inr lo \<Rightarrow>
          (case amount_bound E (GET req ''max_amount'') of
             Inl x \<Rightarrow> Inl x
           | Inr hi \<Rightarrow> Inr (lo, hi)))"

subsection \<open>Income\<close>

definition income_query :: "'f env \<Rightarrow> db \<Rightarrow> request \<Rightarrow> exn + Income list" where
  "income_query E d req =
     (let from_d = parse_date E (GET req ''from'');
          to_d = parse_date E (GET req ''to'');
          remark = strip (get_or_empty (GET req) ''remark'' [])
      in case amount_bounds E req of
           Inl x \<Rightarrow> Inl x
         | Inr (min_amt, max_amt) \<Rightarrow>
             (let qs = filter (\<lambda>r. i_user r = Some (req_user req)) (incomes d);
                  qs = opt_filter from_d (\<lambda>v r. date_le v (i_date r)) qs;
                  qs = opt_filter to_d (\<lambda>v r. date_le (i_date r) v) qs;
                  qs = opt_filter min_amt (\<lambda>v r. v \<le> i_amount r) qs;
                  qs = opt_filter max_amt (\<lambda>v r. i_amount r \<le> v) qs;
                  qs = str_filter remark (\<lambda>s r. icontains (i_remark r) s \<or> icontains (i_source r) s) qs
              in Inr (order_desc i_date i_id qs)))"

definition income_payload :: "request \<Rightarrow> payload" where
  "income_payload req =
     [''amount'' \<mapsto> data req ''amount'',
      ''date'' \<mapsto> Some (take 10 (get_or_empty (data req) ''date'' [])),
      ''source'' \<mapsto> Some (strip (get_or_empty (data req) ''source'' [])),
      ''remark'' \<mapsto> Some (get_or (data req) ''remark'' [])]"

definition income_list :: "'f env \<Rightarrow> db \<Rightarrow> request \<Rightarrow> exn + db \<times> Income response" where
  "income_list E d req =
     (if req_method req = ''GET'' then
        (case income_query E d req of
           Inl x \<Rightarrow> Inl x
         | Inr qs \<Rightarrow>
             (let (limit, offset) = parse_pagination req
              in Inr (d, Response (Page (length qs) (slice offset limit qs)) 200)))
      else if req_method req = ''POST'' then
        (case IncomeSerializer_is_valid E False (income_payload req) of
           Inr attrs \<Rightarrow>
             (case income_create E d (req_user req) attrs of
                Inl x \<Rightarrow> Inl x
              | Inr (d', obj) \<Rightarrow> Inr (d', Response (Obj obj) 201))
         | Inl errs \<Rightarrow> Inr (d, Response (Errors errs) 400))
      else Inr (d, method_not_allowed))"

subsection \<open>Expense\<close>

definition expense_query :: "'f env \<Rightarrow> db \<Rightarrow> request \<Rightarrow> exn + Expense list" where
  "expense_query E d req =
     (let from_d = parse_date E (GET req ''from'');
          to_d = parse_date E (GET req ''to'');
          remark = strip (get_or_empty (GET req) ''remark'' []);
          category_q = strip (get_or_empty (GET req) ''category'' []);
          t_slug = lower (strip (get_or_empty (GET req) ''type'' []))
      in case amount_bounds E req of
           Inl x \<Rightarrow> Inl x
         | Inr (min_amt, max_amt) \<Rightarrow>
             (let qs = filter (\<lambda>r. e_user r = Some (req_user req)) (expenses d);
                  qs = opt_filter from_d (\<lambda>v r. date_le v (e_date r)) qs;
                  qs = opt_filter to_d (\<lambda>v r. date_le (e_date r) v) qs;
                  qs = opt_filter min_amt (\<lambda>v r. v \<le> e_amount r) qs;
                  qs = opt_filter max_amt (\<lambda>v r. e_amount r \<le> v) qs;
                  qs = str_filter remark (\<lambda>s r. icontains (e_remark r) s) qs;
                  qs = str_filter category_q (\<lambda>s r. icontains (e_category r) s) qs;
                  qs = (if map_of SLUG_TO_TYPES t_slug \<noteq> None
                        then filter (\<lambda>r. e_type r \<in> set (labels_for_slug t_slug)) qs
                        else qs)
              in Inr (order_desc e_date e_id qs)))"

definition expense_payload :: "request \<Rightarrow> payload" where
  "expense_payload req =
     [''date'' \<mapsto> Some (take 10 (get_or_empty (data req) ''date'' [])),
      ''amount'' \<mapsto> data req ''amount'',
      ''remark'' \<mapsto> Some (get_or (data req) ''remark'' []),
      ''type'' \<mapsto> Some (strip (get_or_empty (data req) ''type'' ''Expense'')),
      ''category'' \<mapsto> Some (strip (get_or_empty (data req) ''category'' []))]"

definition expense_list :: "'f env \<Rightarrow> db \<Rightarrow> request \<Rightarrow> exn + db \<times> Expense response" where
  "expense_list E d req =
     (if req_method req = ''GET'' then
        (case expense_query E d req of
           Inl x \<Rightarrow> Inl x
         | Inr qs \<Rightarrow>
             (let (limit, offset) = parse_pagination req
              in Inr (d, Response (Page (length qs) (slice offset limit qs)) 200)))
      else if req_method req = ''POST'' then
        (case ExpenseSerializer_is_valid E False (expense_payload req) of
           Inr attrs \<Rightarrow>
             (case expense_create E d (req_user req) attrs of
                Inl x \<Rightarrow> Inl x
              | Inr (d', obj) \<Rightarrow> Inr (d', Response (Obj obj) 201))
         | Inl errs \<Rightarrow> Inr (d, Response (Errors errs) 400))
      else Inr (d, method_not_allowed))"

subsection \<open>Budget\<close>

definition budget_query :: "'f env \<Rightarrow> db \<Rightarrow> request \<Rightarrow> Budget list" where
  "budget_query E d req =
     (let from_d = parse_date E (GET req ''from'');
          to_d = parse_date E (GET req ''to'');
          qs = filter (\<lambda>r. b_user r = Some (req_user req)) (budgets d);
          qs = opt_filter from_d (\<lambda>v r. date_le v (b_date r)) qs;
          qs = opt_filter to_d (\<lambda>v r. date_le (b_date r) v) qs
      in order_desc b_date b_id qs)"

definition budget_list :: "'f env \<Rightarrow> db \<Rightarrow> request \<Rightarrow> exn + db \<times> Budget response" where
  "budget_list E d req =
     (if req_method req = ''GET'' then
        (let qs = budget_query E d req;
             (limit, offset) = parse_pagination req
         in Inr (d, Response (Page (length qs) (slice offset limit qs)) 200))
      else if req_method req = ''POST'' then
        (case BudgetSerializer_is_valid E False (\<lambda>k. map_option Some (data req k)) of
           Inr attrs \<Rightarrow>
             (case budget_create E d (req_user req) attrs of
                Inl x \<Rightarrow> Inl x
              | Inr (d', obj) \<Rightarrow> Inr (d', Response (Obj obj) 201))
         | Inl errs \<Rightarrow> Inr (d, Response (Errors errs) 400))
      else Inr (d, method_not_allowed))"

subsection \<open>Filters\<close>

definition filter_types :: "db \<Rightarrow> request \<Rightarrow> string response" where
  "filter_types d req =
     (if req_method req = ''GET'' then Response (Rows (present_type_slugs d (req_user req))) 200
      else method_not_allowed)"

subsection \<open>Transactions: the unified feed\<close>

record feed_row =
  f_id :: nat
  f_type :: string
  f_remark :: string
  f_date :: string
  f_amount :: rat
  f_category :: string

definition income_row :: "Income \<Rightarrow> feed_row" where
  "income_row it =
     \<lparr>f_id = i_id it, f_type = ''Income'',
      f_remark = (if i_remark it = [] then i_source it else i_remark it),
      f_date = isoformat (i_date it), f_amount = i_amount it, f_category = i_source it\<rparr>"

definition expense_row :: "Expense \<Rightarrow> feed_row" where
  "expense_row it =
     \<lparr>f_id = e_id it, f_type = (if e_type it = [] then ''Expense'' else e_type it),
      f_remark = e_remark it, f_date = isoformat (e_date it), f_amount = e_amount it,
      f_category = e_category it\<rparr>"

text \<open>
  The choice of the Expense rows by the requested type. The column is not nullable,
  so \<^verbatim>\<open>type__isnull=True\<close> selects no row.
\<close>

definition feed_type_filter :: "string \<Rightarrow> Expense list \<Rightarrow> Expense list" where
  "feed_type_filter t_type exp_base =
     (if t_type = ''expense''
        then filter (\<lambda>r. iexact (e_type r) ''Expense'' \<or> e_type r = []) exp_base
      else if t_type = ''savings'' then filter (\<lambda>r. iexact (e_type r) ''Savings'') exp_base
      else if t_type = ''emis'' then filter (\<lambda>r. iexact (e_type r) ''EMIs'') exp_base
      else if t_type = ''loans&advance''
        then filter (\<lambda>r. iexact (e_type r) ''Loans&Advance'') exp_base
      else if t_type = ''other'' then filter (\<lambda>r. iexact (e_type r) ''Other'') exp_base
      else if t_type = ''all'' then exp_base
      else [])"

definition feed_type :: "request \<Rightarrow> string" where
  "feed_type req = lower (get_or_empty (GET req) ''type'' ''all'')"

definition feed_from :: "'f env \<Rightarrow> request \<Rightarrow> date" where
  "feed_from E req =
     or_else (parse_date E (GET req ''from''))
       \<lparr>year = year (today E), month = month (today E), day = 1\<rparr>"

definition feed_to :: "'f env \<Rightarrow> request \<Rightarrow> date" where
  "feed_to E req = or_else (parse_date E (GET req ''to'')) (today E)"

definition feed_incomes :: "'f env \<Rightarrow> db \<Rightarrow> request \<Rightarrow> rat option \<Rightarrow> rat option \<Rightarrow> Income list" where
  "feed_incomes E d req min_amt max_amt =
     (let remark = strip (get_or_empty (GET req) ''remark'' []);
          category_q = strip (get_or_empty (GET req) ''category'' [])
      in if feed_type req = ''income'' \<or> feed_type req = ''all'' then
           (let qs_inc = filter (\<lambda>r. i_user r = Some (req_user req)
                                      \<and> date_le (feed_from E req) (i_date r)
                                      \<and> date_le (i_date r) (feed_to E req)) (incomes d);
                qs_inc = opt_filter min_amt (\<lambda>v r. v \<le> i_amount r) qs_inc;
                qs_inc = opt_filter max_amt (\<lambda>v r. i_amount r \<le> v) qs_inc;
                qs_inc = str_filter remark
                           (\<lambda>s r. icontains (i_remark r) s \<or> icontains (i_source r) s) qs_inc;
                qs_inc = str_filter category_q
                           (\<lambda>s r. icontains (i_source r) s \<or> icontains (i_remark r) s) qs_inc
            in order_desc i_date i_id qs_inc)
         else [])"

definition feed_expenses :: "'f env \<Rightarrow> db \<Rightarrow> request \<Rightarrow> rat option \<Rightarrow> rat option \<Rightarrow> Expense list" where
  "feed_expenses E d req min_amt max_amt =
     (let remark = strip (get_or_empty (GET req) ''remark'' []);
          category_q = strip (get_or_empty (GET req) ''category'' []);
          exp_base = filter (\<lambda>r. e_user r = Some (req_user req)
                                    \<and> date_le (feed_from E req) (e_date r)
                                    \<and> date_le (e_date r) (feed_to E req)) (expenses d);
          exp_base = opt_filter min_amt (\<lambda>v r. v \<le> e_amount r) exp_base;
          exp_base = opt_filter max_amt (\<lambda>v r. e_amount r \<le> v) exp_base;
          exp_base = str_filter remark (\<lambda>s r. icontains (e_remark r) s) exp_base;
          exp_base = str_filter category_q (\<lambda>s r. icontains (e_category r) s) exp_base
      in order_desc e_date e_id (feed_type_filter (feed_type req) exp_base))"

text \<open>The rows as appended: the Income rows, then the Expense rows.\<close>

definition feed_appended :: "'f env \<Rightarrow> db \<Rightarrow> request \<Rightarrow> exn + feed_row list" where
  "feed_appended E d req =
     (case amount_bounds E req of
        Inl x \<Rightarrow> Inl x
      | Inr (min_amt, max_amt) \<Rightarrow>
          Inr (map income_row (feed_incomes E d req min_amt max_amt)
               @ map expense_row (feed_expenses E d req min_amt max_amt)))"

definition feed_key :: "feed_row \<Rightarrow> string \<times> string" where
  "feed_key x = (f_date x, str_nat (f_id x))"

text \<open>The rows after \<^verbatim>\<open>rows.sort(key=..., reverse=True)\<close>.\<close>

definition feed_sorted :: "'f env \<Rightarrow> db \<Rightarrow> request \<Rightarrow> exn + feed_row list" where
  "feed_sorted E d req =
     (case feed_appended E d req of
        Inl x \<Rightarrow> Inl x
      | Inr rows \<Rightarrow> Inr (sort_reverse feed_key rows))"

definition transaction_history :: "'f env \<Rightarrow> db \<Rightarrow> request \<Rightarrow> exn + feed_row response" where
  "transaction_history E d req =
     (if req_method req = ''GET'' then
        (let (limit, offset) = parse_pagination req
         in case feed_sorted E d req of
              Inl x \<Rightarrow> Inl x
            | Inr rows \<Rightarrow> Inr (Response (Page (length rows) (slice offset limit rows)) 200))
      else Inr method_not_allowed)"

subsection \<open>Insights\<close>

record 'f insight_row =
  category :: string
  subcategory :: string
  planned :: 'f
  actual :: 'f
  difference :: 'f

definition in_month :: "date \<Rightarrow> date \<Rightarrow> bool" where
  "in_month t d = (year d = year t \<and> month d = month t)"

definition insights_expenses :: "'f env \<Rightarrow> db \<Rightarrow> request \<Rightarrow> Expense list" where
  "insights_expenses E d req =
     (let exp_qs = filter (\<lambda>r. e_user r = Some (req_user req)) (expenses d)
      in if get_or (GET req) ''scope'' ''month'' = ''month''
         then filter (\<lambda>r. in_month (today E) (e_date r)) exp_qs else exp_qs)"

definition insights_incomes :: "'f env \<Rightarrow> db \<Rightarrow> request \<Rightarrow> Income list" where
  "insights_incomes E d req =
     (let inc_qs = filter (\<lambda>r. i_user r = Some (req_user req)) (incomes d)
      in if get_or (GET req) ''scope'' ''month'' = ''month''
         then filter (\<lambda>r. in_month (today E) (i_date r)) inc_qs else inc_qs)"

definition budget_actual :: "Expense list \<Rightarrow> Income list \<Rightarrow> Budget \<Rightarrow> rat" where
  "budget_actual exp_qs inc_qs b =
     (let cat = lower (strip (b_category b));
          sub = strip (b_subcategory b)
      in if cat = ''expense''
           then sum_list (map e_amount (filter (\<lambda>r. iexact (e_category r) sub) exp_qs))
         else if cat = ''saving'' \<or> cat = ''savings''
           then sum_list (map i_amount
                  (filter (\<lambda>r. icontains (i_remark r) sub \<or> icontains (i_source r) sub) inc_qs))
         else 0)"

definition insight :: "'f env \<Rightarrow> Expense list \<Rightarrow> Income list \<Rightarrow> Budget \<Rightarrow> 'f insight_row" where
  "insight E exp_qs inc_qs b =
     (let act = budget_actual exp_qs inc_qs b;
          pln = to_float E (b_amount b)
      in \<lparr>category = b_category b, subcategory = b_subcategory b, planned = pln,
          actual = to_float E act, difference = float_sub E (to_float E act) pln\<rparr>)"

definition insights_summary :: "'f env \<Rightarrow> db \<Rightarrow> request \<Rightarrow> 'f insight_row response" where
  "insights_summary E d req =
     (if req_method req = ''GET'' then
        Response (Rows (map (insight E (insights_expenses E d req) (insights_incomes E d req))
                         (order_desc b_date b_id
                            (filter (\<lambda>b. b_user b = Some (req_user req)) (budgets d))))) 200
      else method_not_allowed)"

subsection \<open>Detail endpoints\<close>

text \<open>
  Every method other than GET goes through the serializer and saves: the source has
  no branch of its own for DELETE, which is handled as a full update.
\<close>

definition detail_payload :: "request \<Rightarrow> payload" where
  "detail_payload req =
     (\<lambda>k. if k = ''date'' then map_option (\<lambda>s. Some (take 10 s)) (data req k)
          else map_option Some (data req k))"

definition detail_methods :: "string list" where
  "detail_methods = [''GET'', ''PUT'', ''PATCH'', ''DELETE'']"

definition income_detail :: "'f env \<Rightarrow> db \<Rightarrow> request \<Rightarrow> nat \<Rightarrow> exn + db \<times> Income response" where
  "income_detail E d req pk =
     (if req_method req \<notin> set detail_methods then Inr (d, method_not_allowed)
      else
        (case get_pk i_id pk (filter (\<lambda>r. i_user r = Some (req_user req)) (incomes d)) of
           DoesNotExist \<Rightarrow> Inr (d, Response (Detail ''Not found.'') 404)
         | Multiple \<Rightarrow> Inl MultipleObjectsReturned
         | Found obj \<Rightarrow>
             if req_method req = ''GET'' then Inr (d, Response (Obj obj) 200)
             else
               (case IncomeSerializer_is_valid E (req_method req = ''PATCH'') (detail_payload req) of
                  Inr attrs \<Rightarrow>
                    (let (d', obj') = income_update d obj attrs
                     in Inr (d', Response (Obj obj') 200))
                | Inl errs \<Rightarrow> Inr (d, Response (Errors errs) 400))))"

definition expense_detail :: "'f env \<Rightarrow> db \<Rightarrow> request \<Rightarrow> nat \<Rightarrow> exn + db \<times> Expense response" where
  "expense_detail E d req pk =
     (if req_method req \<notin> set detail_methods then Inr (d, method_not_allowed)
      else
        (case get_pk e_id pk (filter (\<lambda>r. e_user r = Some (req_user req)) (expenses d)) of
           DoesNotExist \<Rightarrow> Inr (d, Response (Detail ''Not found.'') 404)
         | Multiple \<Rightarrow> Inl MultipleObjectsReturned
         | Found obj \<Rightarrow>
             if req_method req = ''GET'' then Inr (d, Response (Obj obj) 200)
             else
               (case ExpenseSerializer_is_valid E (req_method req = ''PATCH'') (detail_payload req) of
                  Inr attrs \<Rightarrow>
                    (let (d', obj') = expense_update d obj attrs
                     in Inr (d', Response (Obj obj') 200))
                | Inl errs \<Rightarrow> Inr (d, Response (Errors errs) 400))))"

section \<open>Notions the properties are stated with\<close>

text \<open>
  The text a request supplies for a body field: trimmed, and empty when the field is
  absent.
\<close>

definition supplied :: "request \<Rightarrow> string \<Rightarrow> string" where
  "supplied req k = strip (get_or_empty (data req) k [])"

text \<open>The error the serializer raises for a missing category.\<close>

definition category_error :: errors where
  "category_error = [(''category'', [''Category is required.''])]"

text \<open>The methods with which a detail endpoint writes.\<close>

definition update_methods :: "string list" where
  "update_methods = [''PUT'', ''PATCH'', ''DELETE'']"

text \<open>
  The type a write carries: the supplied text, and \<^verbatim>\<open>Expense\<close> when none is supplied.
\<close>

definition normal_type :: "request \<Rightarrow> string" where
  "normal_type req = (if supplied req ''type'' = [] then ''Expense'' else supplied req ''type'')"

text \<open>The caller's own Expense rows, the query set a detail endpoint looks a key up in.\<close>

definition own_expenses :: "db \<Rightarrow> request \<Rightarrow> Expense list" where
  "own_expenses d req = filter (\<lambda>r. e_user r = Some (req_user req)) (expenses d)"

text \<open>
  The budgets as the serializer stores them: no subcategory has blanks around it.
  The scope of an insights request: the current calendar month when \<^verbatim>\<open>scope\<close> is
  \<^verbatim>\<open>month\<close> (the default), every date otherwise.
\<close>

definition trimmed_budgets :: "db \<Rightarrow> bool" where
  "trimmed_budgets d = list_all (\<lambda>b. strip (b_subcategory b) = b_subcategory b) (budgets d)"

definition in_scope :: "'f env \<Rightarrow> request \<Rightarrow> date \<Rightarrow> bool" where
  "in_scope E req dt = (get_or (GET req) ''scope'' ''month'' = ''month'' \<longrightarrow> in_month (today E) dt)"

text \<open>The rows a response body carries.\<close>

definition rows_of :: "'r body \<Rightarrow> 'r list" where
  "rows_of b = (case b of Page c qs \<Rightarrow> qs | Rows qs \<Rightarrow> qs | Obj r \<Rightarrow> [r]
                | Errors e \<Rightarrow> [] | Detail s \<Rightarrow> [])"

text \<open>The rows of the three tables that do not belong to a user, and the database
  cut down to the rows that do.\<close>

definition foreign_rows :: "nat \<Rightarrow> db \<Rightarrow> Income list \<times> Expense list \<times> Budget list" where
  "foreign_rows u d =
     (filter (\<lambda>r. i_user r \<noteq> Some u) (incomes d),
      filter (\<lambda>r. e_user r \<noteq> Some u) (expenses d),
      filter (\<lambda>r. b_user r \<noteq> Some u) (budgets d))"

definition own_db :: "nat \<Rightarrow> db \<Rightarrow> db" where
  "own_db u d =
     d\<lparr>incomes := filter (\<lambda>r. i_user r = Some u) (incomes d),
       expenses := filter (\<lambda>r. e_user r = Some u) (expenses d),
       budgets := filter (\<lambda>r. b_user r = Some u) (budgets d)\<rparr>"

section \<open>Example data\<close>

definition ex_env :: "rat env" where
  "ex_env =
     \<lparr>strptime_ymd = (\<lambda>s. if s = ''2024-06-01'' then Some \<lparr>year = 2024, month = 6, day = 1\<rparr> else None),
      to_decimal = (\<lambda>s. map_option of_int (py_int s)),
      decimal_field = (\<lambda>max_digits decimal_places s.
         case py_int s of None \<Rightarrow> Inl [''A valid number is required.''] | Some n \<Rightarrow> Inr (of_int n)),
      date_field = (\<lambda>s. if s = ''2024-06-01'' then Inr \<lparr>year = 2024, month = 6, day = 1\<rparr>
                          else Inl [''Date has wrong format.'']),
      today = \<lparr>year = 2024, month = 6, day = 15\<rparr>,
      now = 0,
      to_float = (\<lambda>x. x),
      float_sub = (\<lambda>a b. a - b)\<rparr>"

definition june1 :: date where
  "june1 = \<lparr>year = 2024, month = 6, day = 1\<rparr>"

definition feed_db :: db where
  "feed_db =
     \<lparr>incomes = [\<lparr>i_id = 1, i_user = Some 1, i_amount = 100, i_date = june1,
                   i_source = ''Salary'', i_remark = [], i_created_at = 0\<rparr>,
                  \<lparr>i_id = 2, i_user = Some 2, i_amount = 70, i_date = june1,
                   i_source = ''Rent'', i_remark = [], i_created_at = 0\<rparr>],
      expenses = [\<lparr>e_id = 9, e_user = Some 1, e_date = june1, e_amount = 40, e_remark = [],
                    e_type = ''Expense'', e_category = ''Food'', e_created_at = 0\<rparr>,
                  \<lparr>e_id = 10, e_user = Some 1, e_date = june1, e_amount = 25, e_remark = [],
                    e_type = ''Saving'', e_category = ''SIP'', e_created_at = 0\<rparr>,
                  \<lparr>e_id = 11, e_user = Some 2, e_date = june1, e_amount = 5, e_remark = [],
                    e_type = ''Expense'', e_category = ''Food'', e_created_at = 0\<rparr>],
      budgets = [],
      next_income_id = 3, next_expense_id = 12, next_budget_id = 1\<rparr>"

definition feed_req :: request where
  "feed_req = \<lparr>req_user = 1, req_method = ''GET'', GET = Map.empty, data = Map.empty\<rparr>"

definition feed_row9 :: feed_row where
  "feed_row9 = \<lparr>f_id = 9, f_type = ''Expense'', f_remark = [], f_date = ''2024-06-01'',
                 f_amount = 40, f_category = ''Food''\<rparr>"

definition feed_row10 :: feed_row where
  "feed_row10 = \<lparr>f_id = 10, f_type = ''Saving'', f_remark = [], f_date = ''2024-06-01'',
                  f_amount = 25, f_category = ''SIP''\<rparr>"

definition feed_row1 :: feed_row where
  "feed_row1 = \<lparr>f_id = 1, f_type = ''Income'', f_remark = ''Salary'', f_date = ''2024-06-01'',
                 f_amount = 100, f_category = ''Salary''\<rparr>"

definition page_req :: request where
  "page_req = \<lparr>req_user = 1, req_method = ''GET'',
                GET = [''limit'' \<mapsto> ''1000'', ''offset'' \<mapsto> ''-3''], data = Map.empty\<rparr>"

definition zero_limit_req :: request where
  "zero_limit_req = \<lparr>req_user = 1, req_method = ''GET'', GET = [''limit'' \<mapsto> ''0''],
                      data = Map.empty\<rparr>"

definition emi_req :: request where
  "emi_req = \<lparr>req_user = 1, req_method = ''POST'', GET = Map.empty,
               data = [''type'' \<mapsto> ''EMI'', ''amount'' \<mapsto> ''40'', ''date'' \<mapsto> ''2024-06-01'']\<rparr>"

definition bare_req :: request where
  "bare_req = \<lparr>req_user = 1, req_method = ''POST'', GET = Map.empty,
                data = [''type'' \<mapsto> ''expense'']\<rparr>"

definition other_req :: request where
  "other_req = \<lparr>req_user = 1, req_method = ''POST'', GET = Map.empty,
                 data = [''type'' \<mapsto> '' oTHer '', ''amount'' \<mapsto> ''40'', ''date'' \<mapsto> ''2024-06-01'']\<rparr>"

definition other_obj :: Expense where
  "other_obj = \<lparr>e_id = 12, e_user = Some 1, e_date = june1, e_amount = 40, e_remark = [],
                 e_type = ''Other'', e_category = ''Other'', e_created_at = 0\<rparr>"

definition food_budget :: Budget where
  "food_budget = \<lparr>b_id = 1, b_user = Some 1, b_category = ''Expense'', b_subcategory = ''Food'',
                   b_amount = 50, b_date = june1, b_created_at = 0\<rparr>"

definition budget_req :: request where
  "budget_req = \<lparr>req_user = 1, req_method = ''POST'', GET = Map.empty,
                  data = [''category'' \<mapsto> ''Expense'', ''subcategory'' \<mapsto> '' Food '',
                          ''amount'' \<mapsto> ''50'', ''date'' \<mapsto> ''2024-06-01'']\<rparr>"

definition insights_db :: db where
  "insights_db = feed_db\<lparr>budgets := [food_budget], next_budget_id := 2\<rparr>"

definition saving_row :: Expense where
  "saving_row = \<lparr>e_id = 10, e_user = Some 1, e_date = june1, e_amount = 25, e_remark = [],
                  e_type = ''Saving'', e_category = ''SIP'', e_created_at = 0\<rparr>"

definition savings_req :: request where
  "savings_req = \<lparr>req_user = 1, req_method = ''GET'', GET = [''type'' \<mapsto> ''savings''],
                   data = Map.empty\<rparr>"

definition lowercase_row :: Expense where
  "lowercase_row = \<lparr>e_id = 1, e_user = Some 1, e_date = june1, e_amount = 40, e_remark = [],
                     e_type = ''expense'', e_category = ''Food'', e_created_at = 0\<rparr>"

definition plural_row :: Expense where
  "plural_row = \<lparr>e_id = 2, e_user = Some 1, e_date = june1, e_amount = 30, e_remark = [],
                  e_type = ''Expenses'', e_category = ''Food'', e_created_at = 0\<rparr>"

definition case_db :: db where
  "case_db =
     \<lparr>incomes = [\<lparr>i_id = 1, i_user = Some 1, i_amount = 100, i_date = june1,
                   i_source = ''Salary'', i_remark = [], i_created_at = 0\<rparr>],
      expenses = [lowercase_row], budgets = [],
      next_income_id = 2, next_expense_id = 2, next_budget_id = 1\<rparr>"

definition variant_db :: db where
  "variant_db =
     \<lparr>incomes = [], expenses = [lowercase_row, plural_row], budgets = [],
      next_income_id = 1, next_expense_id = 3, next_budget_id = 1\<rparr>"

definition expense_req :: request where
  "expense_req = \<lparr>req_user = 1, req_method = ''GET'', GET = [''type'' \<mapsto> ''expense''],
                   data = Map.empty\<rparr>"

definition expense_range_req :: request where
  "expense_range_req =
     \<lparr>req_user = 1, req_method = ''GET'',
      GET = [''type'' \<mapsto> ''expense'', ''from'' \<mapsto> ''2024-06-01'', ''to'' \<mapsto> ''2024-06-01''],
      data = Map.empty\<rparr>"

definition foreign_income :: Income where
  "foreign_income = \<lparr>i_id = 2, i_user = Some 2, i_amount = 70, i_date = june1,
                      i_source = ''Rent'', i_remark = [], i_created_at = 0\<rparr>"

definition own_income :: Income where
  "own_income = \<lparr>i_id = 1, i_user = Some 1, i_amount = 100, i_date = june1,
                  i_source = ''Salary'', i_remark = [], i_created_at = 0\<rparr>"

section \<open>Auxiliary facts\<close>

lemma sort_reverse_mset: "mset (sort_reverse k xs) = mset xs"
  by (simp add: sort_reverse_def)

lemma sort_reverse_length: "length (sort_reverse k xs) = length xs"
  by (simp add: sort_reverse_def)

lemma sort_reverse_sorted: "sorted_wrt (\<lambda>x y. k y \<le> k x) (sort_reverse k xs)"
proof -
  have "sorted (map k (sort_key k (rev xs)))"
    by (rule sorted_sort_key)
  then have "sorted_wrt (\<lambda>x y. k x \<le> k y) (sort_key k (rev xs))"
    by (simp add: sorted_map)
  then show ?thesis
    by (simp add: sort_reverse_def sorted_wrt_rev)
qed

lemma sort_reverse_stable:
  "filter (\<lambda>x. k x = v) (sort_reverse k xs) = filter (\<lambda>x. k x = v) xs"
  by (simp add: sort_reverse_def rev_filter [symmetric] sort_key_stable)

lemma py_int_50: "py_int ''50'' = Some 50"
  by code_simp

lemma py_int_0: "py_int ''0'' = Some 0"
  by code_simp

lemma amount_bounds_pagination:
  "amount_bounds E (req\<lparr>GET := (GET req)(''limit'' := l, ''offset'' := off)\<rparr>) = amount_bounds E req"
  by (simp add: amount_bounds_def cong: sum.case_cong)

lemma feed_incomes_pagination:
  "feed_incomes E d (req\<lparr>GET := (GET req)(''limit'' := l, ''offset'' := off)\<rparr>) lo hi
     = feed_incomes E d req lo hi"
  by (simp add: feed_incomes_def feed_type_def feed_from_def feed_to_def get_or_empty_def)

lemma feed_expenses_pagination:
  "feed_expenses E d (req\<lparr>GET := (GET req)(''limit'' := l, ''offset'' := off)\<rparr>) lo hi
     = feed_expenses E d req lo hi"
  by (simp add: feed_expenses_def feed_type_def feed_from_def feed_to_def get_or_empty_def)

lemma feed_appended_pagination:
  "feed_appended E d (req\<lparr>GET := (GET req)(''limit'' := l, ''offset'' := off)\<rparr>) = feed_appended E d req"
  unfolding feed_appended_def amount_bounds_pagination feed_incomes_pagination
    feed_expenses_pagination
  by (rule refl)

lemma feed_sorted_pagination:
  "feed_sorted E d (req\<lparr>GET := (GET req)(''limit'' := l, ''offset'' := off)\<rparr>) = feed_sorted E d req"
  by (simp add: feed_sorted_def feed_appended_pagination)

lemma feed_sorted_ex: "feed_sorted ex_env feed_db feed_req = Inr [feed_row9, feed_row10, feed_row1]"
  by code_simp

lemma key_order:
  "(feed_key y \<le> feed_key x) =
     (f_date y < f_date x \<or> (f_date y = f_date x \<and> str_nat (f_id y) \<le> str_nat (f_id x)))"
  by (auto simp: feed_key_def)

lemma str_nat_10_9: "str_nat 10 < str_nat 9"
  by code_simp

lemma feed_appended_ex: "feed_appended ex_env feed_db feed_req = Inr [feed_row1, feed_row10, feed_row9]"
  by code_simp

lemma strip_Nil: "strip [] = []"
  by (simp add: strip_def)

lemma strip_strip: "strip (strip s) = strip s"
proof -
  define u where "u = dropWhile is_space s"
  define w where "w = dropWhile is_space (rev u)"
  have s: "strip s = rev w"
    by (simp add: strip_def u_def w_def)
  have "dropWhile is_space (rev w) = rev w"
  proof (cases "w = []")
    case True
    then show ?thesis by simp
  next
    case False
    have "rev u = takeWhile is_space (rev u) @ w"
      by (simp add: w_def)
    then have "rev (rev u) = rev (takeWhile is_space (rev u) @ w)"
      by simp
    then have eq: "u = rev w @ rev (takeWhile is_space (rev u))"
      by simp
    then have "hd (rev w) = hd u"
      using False by (metis hd_append2 rev_is_Nil_conv)
    moreover have "u \<noteq> []"
      using eq False by auto
    then have "\<not> is_space (hd u)"
      unfolding u_def by (rule hd_dropWhile)
    ultimately show ?thesis
      using False by (simp add: dropWhile_eq_self_iff)
  qed
  moreover have "dropWhile is_space w = w"
    by (simp add: w_def)
  ultimately have "rev (dropWhile is_space (rev (dropWhile is_space (rev w)))) = rev w"
    by simp
  then have "strip (rev w) = rev w"
    by (simp add: strip_def)
  then show ?thesis
    by (simp only: s)
qed

lemma CharField_Inr: "CharField n b s = Inr x \<Longrightarrow> x = strip s"
  by (auto simp: CharField_def Let_def split: if_splits)

lemma run_field_text:
  "run_field partial False (CharField n b) v = Inr r \<Longrightarrow>
     strip (or_else r []) = (case v of Some (Some s) \<Rightarrow> strip s | _ \<Rightarrow> [])"
  by (auto simp: run_field_def or_else_def strip_Nil strip_strip dest!: CharField_Inr
      split: option.splits sum.splits if_splits)

lemma run_field_required:
  "run_field False True f v = Inr r \<Longrightarrow> \<exists>x. r = Some x"
  by (auto simp: run_field_def split: option.splits sum.splits if_splits)

lemma fields_Inr:
  assumes "ExpenseSerializer_fields E partial p = Inr a"
  shows "run_field partial True (date_field E) (p ''date'') = Inr (ea_date a)"
    and "run_field partial True (decimal_field E 10 2) (p ''amount'') = Inr (ea_amount a)"
    and "run_field partial False (CharField 100 True) (p ''type'') = Inr (ea_type a)"
    and "run_field partial False (CharField 100 True) (p ''category'') = Inr (ea_category a)"
  using assms
  by (auto simp: ExpenseSerializer_fields_def Let_def field_errors_def field_value_def
      split: if_splits sum.splits)

lemma fields_texts:
  assumes "ExpenseSerializer_fields E partial p = Inr a"
  shows "strip (or_else (ea_type a) []) = (case p ''type'' of Some (Some s) \<Rightarrow> strip s | _ \<Rightarrow> [])"
    and "strip (or_else (ea_category a) []) = (case p ''category'' of Some (Some s) \<Rightarrow> strip s | _ \<Rightarrow> [])"
  using fields_Inr(3,4) [OF assms] by (simp_all add: run_field_text)

lemma fields_required:
  assumes "ExpenseSerializer_fields E False p = Inr a"
  shows "\<exists>dt amt. ea_date a = Some dt \<and> ea_amount a = Some amt"
  using fields_Inr(1,2) [OF assms] by (metis run_field_required)

lemma strip_Expense: "strip ''Expense'' = ''Expense''"
  by code_simp

lemma lower_Expense: "lower ''Expense'' = ''expense''"
  by code_simp

lemma create_type_text:
  "(let t0 = (case expense_payload req ''type'' of Some (Some s) \<Rightarrow> strip s | _ \<Rightarrow> [])
    in if t0 = [] then ''Expense'' else t0)
   = (if supplied req ''type'' = [] then ''Expense'' else supplied req ''type'')"
  by (auto simp: expense_payload_def supplied_def get_or_empty_def strip_strip strip_Nil
      strip_Expense Let_def split: option.splits)

lemma create_category_text:
  "(case expense_payload req ''category'' of Some (Some s) \<Rightarrow> strip s | _ \<Rightarrow> [])
   = supplied req ''category''"
  by (auto simp: expense_payload_def supplied_def get_or_empty_def strip_strip strip_Nil
      split: option.splits)

lemma detail_text:
  "(case detail_payload req k of Some (Some s) \<Rightarrow> strip s | _ \<Rightarrow> []) =
     (if k = ''date'' then strip (take 10 (get_or_empty (data req) k [])) else supplied req k)"
  by (auto simp: detail_payload_def supplied_def get_or_empty_def strip_Nil split: option.splits)

text \<open>What validate decides, from the texts it reads.\<close>

lemma validate_decides:
  assumes "(let t0 = strip (or_else (ea_type a) []) in if t0 = [] then ''Expense'' else t0) = t"
    and "strip (or_else (ea_category a) []) = c"
  shows "ExpenseSerializer_validate a =
     (if lower t = ''other''
      then Inr (a\<lparr>ea_type := Some ''Other'', ea_category := Some (if c = [] then ''Other'' else c)\<rparr>)
      else if lower t \<in> set category_required_types \<and> c = [] then Inl category_error
      else Inr (a\<lparr>ea_type := Some t, ea_category := Some c\<rparr>))"
  using assms by (auto simp: ExpenseSerializer_validate_def Let_def category_error_def)

lemma create_is_valid:
  assumes "ExpenseSerializer_fields E False (expense_payload req) = Inr a"
  shows "ExpenseSerializer_is_valid E False (expense_payload req) =
     (let t = (if supplied req ''type'' = [] then ''Expense'' else supplied req ''type'');
          c = supplied req ''category''
      in if lower t = ''other''
         then Inr (a\<lparr>ea_type := Some ''Other'', ea_category := Some (if c = [] then ''Other'' else c)\<rparr>)
         else if lower t \<in> set category_required_types \<and> c = [] then Inl category_error
         else Inr (a\<lparr>ea_type := Some t, ea_category := Some c\<rparr>))"
proof -
  have 1: "(let t0 = strip (or_else (ea_type a) []) in if t0 = [] then ''Expense'' else t0)
           = (if supplied req ''type'' = [] then ''Expense'' else supplied req ''type'')"
    using create_type_text [of req] by (simp add: fields_texts(1) [OF assms])
  have 2: "strip (or_else (ea_category a) []) = supplied req ''category''"
    by (simp add: fields_texts(2) [OF assms] create_category_text)
  show ?thesis
    by (simp add: ExpenseSerializer_is_valid_def assms validate_decides [OF 1 2] Let_def)
qed

lemma update_is_valid:
  assumes "ExpenseSerializer_fields E partial (detail_payload req) = Inr a"
  shows "ExpenseSerializer_is_valid E partial (detail_payload req) =
     (let t = (if supplied req ''type'' = [] then ''Expense'' else supplied req ''type'');
          c = supplied req ''category''
      in if lower t = ''other''
         then Inr (a\<lparr>ea_type := Some ''Other'', ea_category := Some (if c = [] then ''Other'' else c)\<rparr>)
         else if lower t \<in> set category_required_types \<and> c = [] then Inl category_error
         else Inr (a\<lparr>ea_type := Some t, ea_category := Some c\<rparr>))"
proof -
  have 1: "(let t0 = strip (or_else (ea_type a) []) in if t0 = [] then ''Expense'' else t0)
           = (if supplied req ''type'' = [] then ''Expense'' else supplied req ''type'')"
    by (simp add: fields_texts(1) [OF assms] detail_text Let_def)
  have 2: "strip (or_else (ea_category a) []) = supplied req ''category''"
    by (simp add: fields_texts(2) [OF assms] detail_text)
  show ?thesis
    by (simp add: ExpenseSerializer_is_valid_def assms validate_decides [OF 1 2] Let_def)
qed

lemma is_valid_fields_Inl:
  "ExpenseSerializer_fields E partial p = Inl fe \<Longrightarrow> ExpenseSerializer_is_valid E partial p = Inl fe"
  by (simp add: ExpenseSerializer_is_valid_def)

lemma expense_list_post:
  "req_method req = ''POST'' \<Longrightarrow>
   expense_list E d req =
     (case ExpenseSerializer_is_valid E False (expense_payload req) of
        Inr attrs \<Rightarrow>
          (case expense_create E d (req_user req) attrs of
             Inl x \<Rightarrow> Inl x
           | Inr (d', obj) \<Rightarrow> Inr (d', Response (Obj obj) 201))
      | Inl errs \<Rightarrow> Inr (d, Response (Errors errs) 400))"
  by (simp add: expense_list_def)

lemma expense_detail_write:
  "req_method req \<in> set update_methods \<Longrightarrow>
   get_pk e_id pk (filter (\<lambda>r. e_user r = Some (req_user req)) (expenses d)) = Found obj \<Longrightarrow>
   expense_detail E d req pk =
     (case ExpenseSerializer_is_valid E (req_method req = ''PATCH'') (detail_payload req) of
        Inr attrs \<Rightarrow>
          Inr (d\<lparr>expenses := map (\<lambda>r. if e_id r = e_id obj then expense_apply obj attrs else r) (expenses d)\<rparr>,
               Response (Obj (expense_apply obj attrs)) 200)
      | Inl errs \<Rightarrow> Inr (d, Response (Errors errs) 400))"
  by (auto simp: expense_detail_def update_methods_def detail_methods_def expense_update_def Let_def
      split: sum.splits)

lemma other_not_required: "''other'' \<notin> set category_required_types"
  by (simp add: category_required_types_def)

lemma lower_Nil: "lower [] = []"
  by (simp add: lower_def)

lemma required_not_empty: "lower t \<in> set category_required_types \<Longrightarrow> t \<noteq> []"
  by (auto simp: category_required_types_def lower_def)

lemma create_outcome:
  assumes m: "req_method req = ''POST''"
    and f: "ExpenseSerializer_fields E False (expense_payload req) = Inr a"
  shows "\<exists>dt amt. ea_date a = Some dt \<and> ea_amount a = Some amt \<and>
     expense_list E d req =
       (if lower (normal_type req) \<in> set category_required_types \<and> supplied req ''category'' = []
        then Inr (d, Response (Errors category_error) 400)
        else Inr (d\<lparr>expenses := expenses d @
                      [\<lparr>e_id = next_expense_id d, e_user = Some (req_user req), e_date = dt,
                        e_amount = amt, e_remark = or_else (ea_remark a) [],
                        e_type = (if lower (normal_type req) = ''other'' then ''Other''
                                  else normal_type req),
                        e_category = (if lower (normal_type req) = ''other''
                                        \<and> supplied req ''category'' = [] then ''Other''
                                      else supplied req ''category''),
                        e_created_at = now E\<rparr>],
                     next_expense_id := Suc (next_expense_id d)\<rparr>,
                  Response (Obj \<lparr>e_id = next_expense_id d, e_user = Some (req_user req), e_date = dt,
                        e_amount = amt, e_remark = or_else (ea_remark a) [],
                        e_type = (if lower (normal_type req) = ''other'' then ''Other''
                                  else normal_type req),
                        e_category = (if lower (normal_type req) = ''other''
                                        \<and> supplied req ''category'' = [] then ''Other''
                                      else supplied req ''category''),
                        e_created_at = now E\<rparr>) 201))"
proof -
  obtain dt amt where r: "ea_date a = Some dt" "ea_amount a = Some amt"
    using fields_required [OF f] by blast
  show ?thesis
    using r other_not_required
    by (auto simp: expense_list_post [OF m] create_is_valid [OF f] normal_type_def Let_def
        expense_create_def or_else_def)
qed

lemma update_outcome:
  assumes m: "req_method req \<in> set update_methods"
    and g: "get_pk e_id pk (filter (\<lambda>r. e_user r = Some (req_user req)) (expenses d)) = Found obj"
    and f: "ExpenseSerializer_fields E (req_method req = ''PATCH'') (detail_payload req) = Inr a"
  shows "expense_detail E d req pk =
       (if lower (normal_type req) \<in> set category_required_types \<and> supplied req ''category'' = []
        then Inr (d, Response (Errors category_error) 400)
        else Inr (d\<lparr>expenses := map (\<lambda>r. if e_id r = e_id obj
                        then expense_apply obj
                          (a\<lparr>ea_type := Some (if lower (normal_type req) = ''other'' then ''Other''
                                              else normal_type req),
                             ea_category := Some (if lower (normal_type req) = ''other''
                                        \<and> supplied req ''category'' = [] then ''Other''
                                      else supplied req ''category'')\<rparr>)
                        else r) (expenses d)\<rparr>,
                  Response (Obj (expense_apply obj
                          (a\<lparr>ea_type := Some (if lower (normal_type req) = ''other'' then ''Other''
                                              else normal_type req),
                             ea_category := Some (if lower (normal_type req) = ''other''
                                        \<and> supplied req ''category'' = [] then ''Other''
                                      else supplied req ''category'')\<rparr>))) 200))"
  using other_not_required
  by (auto simp: expense_detail_write [OF m g] update_is_valid [OF f] normal_type_def Let_def)

lemma create_invalid:
  assumes m: "req_method req = ''POST''"
    and f: "ExpenseSerializer_fields E False (expense_payload req) = Inl fe"
  shows "expense_list E d req = Inr (d, Response (Errors fe) 400)"
  by (simp add: expense_list_post [OF m] is_valid_fields_Inl [OF f])

lemma update_invalid:
  assumes m: "req_method req \<in> set update_methods"
    and g: "get_pk e_id pk (filter (\<lambda>r. e_user r = Some (req_user req)) (expenses d)) = Found obj"
    and f: "ExpenseSerializer_fields E (req_method req = ''PATCH'') (detail_payload req) = Inl fe"
  shows "expense_detail E d req pk = Inr (d, Response (Errors fe) 400)"
  by (simp add: expense_detail_write [OF m g] is_valid_fields_Inl [OF f])

lemma normal_type_supplied: "supplied req ''type'' \<noteq> [] \<Longrightarrow> normal_type req = supplied req ''type''"
  by (simp add: normal_type_def)

lemma normal_type_default: "supplied req ''type'' = [] \<Longrightarrow> normal_type req = ''Expense''"
  by (simp add: normal_type_def)

lemma emi_facts:
  "lower (supplied emi_req ''type'') \<in> set category_required_types"
  "supplied emi_req ''category'' = []"
  "req_method emi_req = ''POST''"
  by code_simp+

lemma emi_fields:
  "ExpenseSerializer_fields ex_env False (expense_payload emi_req) =
     Inr \<lparr>ea_date = Some june1, ea_amount = Some 40, ea_remark = Some [], ea_type = Some ''EMI'',
          ea_category = Some []\<rparr>"
  by code_simp

lemma bare_facts:
  "lower (supplied bare_req ''type'') \<in> set category_required_types"
  "supplied bare_req ''category'' = []"
  "req_method bare_req = ''POST''"
  by code_simp+

lemma bare_result:
  "expense_list ex_env feed_db bare_req
       = Inr (feed_db, Response (Errors [(''date'', [''Date has wrong format.'']),
                                         (''amount'', [''This field may not be null.''])]) 400)"
  by code_simp

lemma other_facts:
  "lower (supplied other_req ''type'') = ''other''"
  "supplied other_req ''category'' = []"
  "req_method other_req = ''POST''"
  by code_simp+

lemma other_fields:
  "ExpenseSerializer_fields ex_env False (expense_payload other_req) =
     Inr \<lparr>ea_date = Some june1, ea_amount = Some 40, ea_remark = Some [], ea_type = Some ''oTHer'',
          ea_category = Some []\<rparr>"
  by code_simp

lemma other_result:
  "expense_list ex_env feed_db other_req =
     Inr (feed_db\<lparr>expenses := expenses feed_db @ [other_obj],
                  next_expense_id := Suc (next_expense_id feed_db)\<rparr>, Response (Obj other_obj) 201)"
  by code_simp

lemma mset_order_desc: "mset (order_desc dt i qs) = mset qs"
  by (simp add: order_desc_def)

lemma set_order_desc: "set (order_desc dt i qs) = set qs"
  by (simp add: order_desc_def)

lemma insights_expenses_eq:
  "insights_expenses E d req =
     filter (\<lambda>x. e_user x = Some (req_user req) \<and> in_scope E req (e_date x)) (expenses d)"
  by (auto simp: insights_expenses_def in_scope_def Let_def)

lemma insights_incomes_eq:
  "insights_incomes E d req =
     filter (\<lambda>x. i_user x = Some (req_user req) \<and> in_scope E req (i_date x)) (incomes d)"
  by (auto simp: insights_incomes_def in_scope_def Let_def)

lemma conj_filter: "filter P (filter Q xs) = filter (\<lambda>x. Q x \<and> P x) xs"
  by simp

lemma insights_ex:
  "insights_summary ex_env insights_db feed_req =
     Response (Rows [\<lparr>category = ''Expense'', subcategory = ''Food'', planned = 50,
                      actual = 40, difference = - 10\<rparr>]) 200"
  by code_simp

lemma insight_ex:
  "insight ex_env (insights_expenses ex_env insights_db feed_req)
      (insights_incomes ex_env insights_db feed_req) food_budget
   = \<lparr>category = ''Expense'', subcategory = ''Food'', planned = 50, actual = 40, difference = - 10\<rparr>"
  by code_simp

lemma food_budget_facts:
  "req_method feed_req = ''GET''"
  "b_user food_budget = Some (req_user feed_req)"
  "lower (strip (b_category food_budget)) = ''expense''"
  "strip (b_subcategory food_budget) = ''Food''"
  by code_simp+

lemma trimmed_sum:
  "sum_list (map e_amount
     (filter (\<lambda>x. e_user x = Some (req_user feed_req) \<and> in_scope ex_env feed_req (e_date x)
                  \<and> iexact (e_category x) (b_subcategory food_budget)) (expenses insights_db))) = 40"
  by code_simp

lemma insights_db_trimmed:
  "trimmed_budgets feed_db \<and> trimmed_budgets insights_db \<and> food_budget \<in> set (budgets insights_db)"
  by code_simp

lemma budget_post_ex:
  "budget_list ex_env feed_db budget_req =
     Inr (insights_db, Response (Obj food_budget) 201)"
  by code_simp

text \<open>A text field that passed its validator is trimmed.\<close>

lemma run_field_trimmed:
  "run_field partial required (CharField n b) v = Inr (Some x) \<Longrightarrow> strip x = x"
  by (auto simp: run_field_def strip_strip dest!: CharField_Inr
      split: option.splits sum.splits if_splits)

lemma budget_valid_trimmed:
  assumes "BudgetSerializer_is_valid E partial p = Inr a" and "ba_subcategory a = Some x"
  shows "strip x = x"
proof -
  have "run_field partial True (CharField 100 False) (p ''subcategory'') = Inr (ba_subcategory a)"
    using assms(1)
    by (auto simp: BudgetSerializer_is_valid_def Let_def field_errors_def field_value_def
        split: if_splits sum.splits)
  then show ?thesis
    using assms(2) run_field_trimmed by metis
qed

lemma budget_create_trimmed:
  assumes "budget_create E d u a = Inr (d', obj)"
  shows "ba_subcategory a = Some (b_subcategory obj) \<and> budgets d' = budgets d @ [obj]"
  using assms by (auto simp: budget_create_def Let_def split: option.splits)

lemma budget_list_trimmed:
  assumes t: "trimmed_budgets d" and r: "budget_list E d req = Inr (d', Response bd s)"
  shows "trimmed_budgets d'"
proof (cases "req_method req = ''POST''")
  case False
  then have "d' = d"
    using r by (auto simp: budget_list_def Let_def split_beta split: if_splits)
  then show ?thesis
    using t by simp
next
  case True
  show ?thesis
  proof (cases "BudgetSerializer_is_valid E False (\<lambda>k. map_option Some (data req k))")
    case (Inl errs)
    then have "d' = d"
      using r True by (simp add: budget_list_def)
    then show ?thesis
      using t by simp
  next
    case (Inr a)
    then obtain obj where c: "budget_create E d (req_user req) a = Inr (d', obj)"
      using r True by (auto simp: budget_list_def split: sum.splits)
    have "strip (b_subcategory obj) = b_subcategory obj"
      using budget_valid_trimmed [OF Inr] budget_create_trimmed [OF c] by simp
    then show ?thesis
      using t budget_create_trimmed [OF c] by (simp add: trimmed_budgets_def)
  qed
qed

text \<open>The row of a budget, whatever its subcategory.\<close>

lemma insight_row:
  "(let r = insight E (insights_expenses E d req) (insights_incomes E d req) b;
           cat = lower (strip (b_category b));
           sub = strip (b_subcategory b)
       in category r = b_category b \<and> subcategory r = b_subcategory b
          \<and> planned r = to_float E (b_amount b)
          \<and> difference r = float_sub E (actual r) (planned r)
          \<and> actual r = to_float E
               (if cat = ''expense''
                then sum_list (map e_amount
                       (filter (\<lambda>x. e_user x = Some (req_user req) \<and> in_scope E req (e_date x)
                                    \<and> iexact (e_category x) sub) (expenses d)))
                else if cat = ''saving'' \<or> cat = ''savings''
                then sum_list (map i_amount
                       (filter (\<lambda>x. i_user x = Some (req_user req) \<and> in_scope E req (i_date x)
                                    \<and> (icontains (i_remark x) sub \<or> icontains (i_source x) sub))
                          (incomes d)))
                else 0))"
  by (simp add: insight_def budget_actual_def Let_def insights_expenses_eq insights_incomes_eq
      conj_assoc)

lemma set_slice: "set (slice off n xs) \<subseteq> set xs"
  by (auto simp: slice_def dest: in_set_takeD in_set_dropD)

lemma set_opt_filter: "set (opt_filter p f xs) \<subseteq> set xs"
  by (auto simp: opt_filter_def split: option.splits)

lemma set_str_filter: "set (str_filter s f xs) \<subseteq> set xs"
  by (auto simp: str_filter_def)

lemma set_feed_type_filter: "set (feed_type_filter t xs) \<subseteq> set xs"
  by (auto simp: feed_type_filter_def)

lemma set_sort_reverse: "set (sort_reverse k xs) = set xs"
  by (simp add: sort_reverse_def)

lemma filter_map_same:
  "(\<And>x. x \<in> set xs \<Longrightarrow> (P x \<longrightarrow> f x = x) \<and> (\<not> P x \<longrightarrow> \<not> P (f x))) \<Longrightarrow>
   filter P (map f xs) = filter P xs"
  by (induction xs) auto

lemma get_pk_Found: "get_pk i pk qs = Found r \<Longrightarrow> r \<in> set qs \<and> i r = pk"
proof -
  assume "get_pk i pk qs = Found r"
  then have "filter (\<lambda>r. i r = pk) qs = [r]"
    by (auto simp: get_pk_def split: list.splits)
  then have "r \<in> set (filter (\<lambda>r. i r = pk) qs)"
    by simp
  then show ?thesis
    by simp
qed

lemma get_pk_DoesNotExist: "(\<And>r. r \<in> set qs \<Longrightarrow> i r \<noteq> pk) \<Longrightarrow> get_pk i pk qs = DoesNotExist"
proof -
  assume "\<And>r. r \<in> set qs \<Longrightarrow> i r \<noteq> pk"
  then have "filter (\<lambda>r. i r = pk) qs = []"
    by (simp add: filter_empty_conv)
  then show ?thesis
    by (simp add: get_pk_def)
qed

lemma distinct_key_eq:
  "distinct (map i xs) \<Longrightarrow> x \<in> set xs \<Longrightarrow> y \<in> set xs \<Longrightarrow> i x = i y \<Longrightarrow> x = y"
  by (auto simp: distinct_map dest: inj_onD)

text \<open>Queries return rows of the caller.\<close>

lemma income_query_own:
  "income_query E d req = Inr qs \<Longrightarrow> x \<in> set qs \<Longrightarrow> x \<in> set (incomes d) \<and> i_user x = Some (req_user req)"
  by (auto simp: income_query_def Let_def set_order_desc split: sum.splits
      dest!: set_opt_filter [THEN subsetD] set_str_filter [THEN subsetD])

lemma expense_query_own:
  "expense_query E d req = Inr qs \<Longrightarrow> x \<in> set qs \<Longrightarrow> x \<in> set (expenses d) \<and> e_user x = Some (req_user req)"
  by (auto simp: expense_query_def Let_def set_order_desc split: sum.splits if_splits
      dest!: set_opt_filter [THEN subsetD] set_str_filter [THEN subsetD])

lemma budget_query_own:
  "x \<in> set (budget_query E d req) \<Longrightarrow> x \<in> set (budgets d) \<and> b_user x = Some (req_user req)"
  by (auto simp: budget_query_def Let_def set_order_desc
      dest!: set_opt_filter [THEN subsetD])

lemma feed_incomes_own:
  "x \<in> set (feed_incomes E d req lo hi) \<Longrightarrow> x \<in> set (incomes d) \<and> i_user x = Some (req_user req)"
  by (auto simp: feed_incomes_def Let_def set_order_desc split: if_splits
      dest!: set_opt_filter [THEN subsetD] set_str_filter [THEN subsetD])

lemma feed_expenses_own:
  "x \<in> set (feed_expenses E d req lo hi) \<Longrightarrow> x \<in> set (expenses d) \<and> e_user x = Some (req_user req)"
  by (auto simp: feed_expenses_def Let_def set_order_desc
      dest!: set_feed_type_filter [THEN subsetD] set_opt_filter [THEN subsetD]
        set_str_filter [THEN subsetD])

text \<open>Creating a row.\<close>

lemma income_create_props:
  "income_create E d u a = Inr (d', obj) \<Longrightarrow>
     d' = d\<lparr>incomes := incomes d @ [obj], next_income_id := Suc (next_income_id d)\<rparr>
     \<and> i_user obj = Some u \<and> i_id obj = next_income_id d"
  by (auto simp: income_create_def Let_def split: option.splits)

lemma expense_create_props:
  "expense_create E d u a = Inr (d', obj) \<Longrightarrow>
     d' = d\<lparr>expenses := expenses d @ [obj], next_expense_id := Suc (next_expense_id d)\<rparr>
     \<and> e_user obj = Some u \<and> e_id obj = next_expense_id d"
  by (auto simp: expense_create_def Let_def split: option.splits)

lemma budget_create_props:
  "budget_create E d u a = Inr (d', obj) \<Longrightarrow>
     d' = d\<lparr>budgets := budgets d @ [obj], next_budget_id := Suc (next_budget_id d)\<rparr>
     \<and> b_user obj = Some u \<and> b_id obj = next_budget_id d"
  by (auto simp: budget_create_def Let_def split: option.splits)

lemma wf_add_income:
  "wf_db d \<Longrightarrow> i_id obj = next_income_id d \<Longrightarrow>
   wf_db (d\<lparr>incomes := incomes d @ [obj], next_income_id := Suc (next_income_id d)\<rparr>)"
  by (auto simp: wf_db_def list_all_iff less_Suc_eq)

lemma wf_add_expense:
  "wf_db d \<Longrightarrow> e_id obj = next_expense_id d \<Longrightarrow>
   wf_db (d\<lparr>expenses := expenses d @ [obj], next_expense_id := Suc (next_expense_id d)\<rparr>)"
  by (auto simp: wf_db_def list_all_iff less_Suc_eq)

lemma wf_add_budget:
  "wf_db d \<Longrightarrow> b_id obj = next_budget_id d \<Longrightarrow>
   wf_db (d\<lparr>budgets := budgets d @ [obj], next_budget_id := Suc (next_budget_id d)\<rparr>)"
  by (auto simp: wf_db_def list_all_iff less_Suc_eq)

text \<open>Updating the caller's row.\<close>

lemma income_apply_keeps: "i_user (income_apply obj a) = i_user obj \<and> i_id (income_apply obj a) = i_id obj"
  by (simp add: income_apply_def)

lemma expense_apply_keeps: "e_user (expense_apply obj a) = e_user obj \<and> e_id (expense_apply obj a) = e_id obj"
  by (simp add: expense_apply_def)

lemma income_update_props:
  assumes w: "distinct (map i_id (incomes d))" and o: "obj \<in> set (incomes d)"
    and u: "i_user obj = Some u"
  shows "map i_user (map (\<lambda>r. if i_id r = i_id obj then income_apply obj a else r) (incomes d))
           = map i_user (incomes d)"
    and "map i_id (map (\<lambda>r. if i_id r = i_id obj then income_apply obj a else r) (incomes d))
           = map i_id (incomes d)"
    and "filter (\<lambda>r. i_user r \<noteq> Some u)
            (map (\<lambda>r. if i_id r = i_id obj then income_apply obj a else r) (incomes d))
           = filter (\<lambda>r. i_user r \<noteq> Some u) (incomes d)"
proof -
  have e: "\<And>r. r \<in> set (incomes d) \<Longrightarrow> i_id r = i_id obj \<Longrightarrow> r = obj"
    using distinct_key_eq [OF w _ o] by blast
  show "map i_user (map (\<lambda>r. if i_id r = i_id obj then income_apply obj a else r) (incomes d))
           = map i_user (incomes d)"
    using e by (auto simp: income_apply_keeps)
  show "map i_id (map (\<lambda>r. if i_id r = i_id obj then income_apply obj a else r) (incomes d))
           = map i_id (incomes d)"
    by (auto simp: income_apply_keeps)
  show "filter (\<lambda>r. i_user r \<noteq> Some u)
            (map (\<lambda>r. if i_id r = i_id obj then income_apply obj a else r) (incomes d))
           = filter (\<lambda>r. i_user r \<noteq> Some u) (incomes d)"
    by (rule filter_map_same) (use e u in \<open>auto simp: income_apply_keeps\<close>)
qed

lemma expense_update_props:
  assumes w: "distinct (map e_id (expenses d))" and o: "obj \<in> set (expenses d)"
    and u: "e_user obj = Some u"
  shows "map e_user (map (\<lambda>r. if e_id r = e_id obj then expense_apply obj a else r) (expenses d))
           = map e_user (expenses d)"
    and "map e_id (map (\<lambda>r. if e_id r = e_id obj then expense_apply obj a else r) (expenses d))
           = map e_id (expenses d)"
    and "filter (\<lambda>r. e_user r \<noteq> Some u)
            (map (\<lambda>r. if e_id r = e_id obj then expense_apply obj a else r) (expenses d))
           = filter (\<lambda>r. e_user r \<noteq> Some u) (expenses d)"
proof -
  have e: "\<And>r. r \<in> set (expenses d) \<Longrightarrow> e_id r = e_id obj \<Longrightarrow> r = obj"
    using distinct_key_eq [OF w _ o] by blast
  show "map e_user (map (\<lambda>r. if e_id r = e_id obj then expense_apply obj a else r) (expenses d))
           = map e_user (expenses d)"
    using e by (auto simp: expense_apply_keeps)
  show "map e_id (map (\<lambda>r. if e_id r = e_id obj then expense_apply obj a else r) (expenses d))
           = map e_id (expenses d)"
    by (auto simp: expense_apply_keeps)
  show "filter (\<lambda>r. e_user r \<noteq> Some u)
            (map (\<lambda>r. if e_id r = e_id obj then expense_apply obj a else r) (expenses d))
           = filter (\<lambda>r. e_user r \<noteq> Some u) (expenses d)"
    by (rule filter_map_same) (use e u in \<open>auto simp: expense_apply_keeps\<close>)
qed

text \<open>The views, one by one.\<close>

lemma income_list_isolated:
  assumes w: "wf_db d" and r: "income_list E d req = Inr (d', Response b s)"
  shows "wf_db d' \<and> foreign_rows (req_user req) d' = foreign_rows (req_user req) d
         \<and> list_all (\<lambda>x. i_user x = Some (req_user req)) (rows_of b)
         \<and> (\<forall>obj. b = Obj obj \<longrightarrow> incomes d' = incomes d @ [obj])"
proof (cases "req_method req = ''GET''")
  case True
  then show ?thesis
    using w r
    by (auto simp: income_list_def rows_of_def list_all_iff split_beta split: sum.splits
        dest!: set_slice [THEN subsetD] dest: income_query_own)
next
  case False
  then show ?thesis
    using w r
    by (auto simp: income_list_def rows_of_def foreign_rows_def wf_add_income
        split: sum.splits if_splits dest!: income_create_props)
qed

lemma expense_list_isolated:
  assumes w: "wf_db d" and r: "expense_list E d req = Inr (d', Response b s)"
  shows "wf_db d' \<and> foreign_rows (req_user req) d' = foreign_rows (req_user req) d
         \<and> list_all (\<lambda>x. e_user x = Some (req_user req)) (rows_of b)
         \<and> (\<forall>obj. b = Obj obj \<longrightarrow> expenses d' = expenses d @ [obj])"
proof (cases "req_method req = ''GET''")
  case True
  then show ?thesis
    using w r
    by (auto simp: expense_list_def rows_of_def list_all_iff split_beta split: sum.splits
        dest!: set_slice [THEN subsetD] dest: expense_query_own)
next
  case False
  then show ?thesis
    using w r
    by (auto simp: expense_list_def rows_of_def foreign_rows_def wf_add_expense
        split: sum.splits if_splits dest!: expense_create_props)
qed

lemma budget_list_isolated:
  assumes w: "wf_db d" and r: "budget_list E d req = Inr (d', Response b s)"
  shows "wf_db d' \<and> foreign_rows (req_user req) d' = foreign_rows (req_user req) d
         \<and> list_all (\<lambda>x. b_user x = Some (req_user req)) (rows_of b)
         \<and> (\<forall>obj. b = Obj obj \<longrightarrow> budgets d' = budgets d @ [obj])"
proof (cases "req_method req = ''GET''")
  case True
  then show ?thesis
    using w r
    by (auto simp: budget_list_def rows_of_def list_all_iff split_beta Let_def
        dest!: set_slice [THEN subsetD] dest: budget_query_own)
next
  case False
  then show ?thesis
    using w r
    by (auto simp: budget_list_def rows_of_def foreign_rows_def wf_add_budget
        split: sum.splits if_splits dest!: budget_create_props)
qed

lemma income_detail_isolated:
  assumes w: "wf_db d" and r: "income_detail E d req pk = Inr (d', Response b s)"
  shows "wf_db d' \<and> foreign_rows (req_user req) d' = foreign_rows (req_user req) d
         \<and> list_all (\<lambda>x. i_user x = Some (req_user req)) (rows_of b)
         \<and> map i_user (incomes d') = map i_user (incomes d)
         \<and> map i_id (incomes d') = map i_id (incomes d)"
proof (cases "get_pk i_id pk (filter (\<lambda>r. i_user r = Some (req_user req)) (incomes d))")
  case DoesNotExist
  then show ?thesis
    using w r by (auto simp: income_detail_def rows_of_def split: if_splits)
next
  case Multiple
  then show ?thesis
    using w r by (auto simp: income_detail_def rows_of_def split: if_splits)
next
  case (Found obj)
  then have o: "obj \<in> set (incomes d)" "i_user obj = Some (req_user req)"
    using get_pk_Found [OF Found] by simp_all
  have dst: "distinct (map i_id (incomes d))"
    using w by (simp add: wf_db_def)
  note p = income_update_props [OF dst o]
  have wf': "\<And>a. wf_db (d\<lparr>incomes := map (\<lambda>r. if i_id r = i_id obj then income_apply obj a else r) (incomes d)\<rparr>)"
  proof -
    fix a
    have "list_all (\<lambda>r. i_id r < next_income_id d)
            (map (\<lambda>r. if i_id r = i_id obj then income_apply obj a else r) (incomes d))"
      using w by (auto simp: wf_db_def list_all_iff income_apply_keeps)
    moreover have "distinct (map i_id (map (\<lambda>r. if i_id r = i_id obj then income_apply obj a else r) (incomes d)))"
      using dst by (simp only: p(2) [of a])
    ultimately show "wf_db (d\<lparr>incomes := map (\<lambda>r. if i_id r = i_id obj then income_apply obj a else r) (incomes d)\<rparr>)"
      using w by (simp add: wf_db_def)
  qed
  show ?thesis
    using w r Found o p wf'
    by (auto simp: income_detail_def rows_of_def foreign_rows_def income_update_def Let_def
        income_apply_keeps split: if_splits sum.splits)
qed

lemma expense_detail_isolated:
  assumes w: "wf_db d" and r: "expense_detail E d req pk = Inr (d', Response b s)"
  shows "wf_db d' \<and> foreign_rows (req_user req) d' = foreign_rows (req_user req) d
         \<and> list_all (\<lambda>x. e_user x = Some (req_user req)) (rows_of b)
         \<and> map e_user (expenses d') = map e_user (expenses d)
         \<and> map e_id (expenses d') = map e_id (expenses d)"
proof (cases "get_pk e_id pk (filter (\<lambda>r. e_user r = Some (req_user req)) (expenses d))")
  case DoesNotExist
  then show ?thesis
    using w r by (auto simp: expense_detail_def rows_of_def split: if_splits)
next
  case Multiple
  then show ?thesis
    using w r by (auto simp: expense_detail_def rows_of_def split: if_splits)
next
  case (Found obj)
  then have o: "obj \<in> set (expenses d)" "e_user obj = Some (req_user req)"
    using get_pk_Found [OF Found] by simp_all
  have dst: "distinct (map e_id (expenses d))"
    using w by (simp add: wf_db_def)
  note p = expense_update_props [OF dst o]
  have wf': "\<And>a. wf_db (d\<lparr>expenses := map (\<lambda>r. if e_id r = e_id obj then expense_apply obj a else r) (expenses d)\<rparr>)"
  proof -
    fix a
    have "list_all (\<lambda>r. e_id r < next_expense_id d)
            (map (\<lambda>r. if e_id r = e_id obj then expense_apply obj a else r) (expenses d))"
      using w by (auto simp: wf_db_def list_all_iff expense_apply_keeps)
    moreover have "distinct (map e_id (map (\<lambda>r. if e_id r = e_id obj then expense_apply obj a else r) (expenses d)))"
      using dst by (simp only: p(2) [of a])
    ultimately show "wf_db (d\<lparr>expenses := map (\<lambda>r. if e_id r = e_id obj then expense_apply obj a else r) (expenses d)\<rparr>)"
      using w by (simp add: wf_db_def)
  qed
  show ?thesis
    using w r Found o p wf'
    by (auto simp: expense_detail_def rows_of_def foreign_rows_def expense_update_def Let_def
        expense_apply_keeps split: if_splits sum.splits)
qed

lemma income_detail_foreign:
  assumes w: "wf_db d" and m: "req_method req \<in> set detail_methods"
    and x: "x \<in> set (incomes d)" and f: "i_user x \<noteq> Some (req_user req)"
  shows "income_detail E d req (i_id x) = Inr (d, Response (Detail ''Not found.'') 404)"
proof -
  have dst: "distinct (map i_id (incomes d))"
    using w by (simp add: wf_db_def)
  have "get_pk i_id (i_id x) (filter (\<lambda>r. i_user r = Some (req_user req)) (incomes d)) = DoesNotExist"
  proof (rule get_pk_DoesNotExist)
    fix r
    assume "r \<in> set (filter (\<lambda>r. i_user r = Some (req_user req)) (incomes d))"
    then have "r \<in> set (incomes d)" "i_user r = Some (req_user req)"
      by simp_all
    then show "i_id r \<noteq> i_id x"
      using distinct_key_eq [OF dst _ x, of r] f by auto
  qed
  then show ?thesis
    using m by (simp add: income_detail_def)
qed

lemma expense_detail_foreign:
  assumes w: "wf_db d" and m: "req_method req \<in> set detail_methods"
    and x: "x \<in> set (expenses d)" and f: "e_user x \<noteq> Some (req_user req)"
  shows "expense_detail E d req (e_id x) = Inr (d, Response (Detail ''Not found.'') 404)"
proof -
  have dst: "distinct (map e_id (expenses d))"
    using w by (simp add: wf_db_def)
  have "get_pk e_id (e_id x) (filter (\<lambda>r. e_user r = Some (req_user req)) (expenses d)) = DoesNotExist"
  proof (rule get_pk_DoesNotExist)
    fix r
    assume "r \<in> set (filter (\<lambda>r. e_user r = Some (req_user req)) (expenses d))"
    then have "r \<in> set (expenses d)" "e_user r = Some (req_user req)"
      by simp_all
    then show "e_id r \<noteq> e_id x"
      using distinct_key_eq [OF dst _ x, of r] f by auto
  qed
  then show ?thesis
    using m by (simp add: expense_detail_def)
qed

lemma feed_rows_own:
  assumes r: "transaction_history E d req = Inr (Response b s)" and x: "x \<in> set (rows_of b)"
  shows "(\<exists>r\<in>set (incomes d). i_user r = Some (req_user req) \<and> x = income_row r)
         \<or> (\<exists>r\<in>set (expenses d). e_user r = Some (req_user req) \<and> x = expense_row r)"
proof (cases "req_method req = ''GET''")
  case False
  then show ?thesis
    using r x by (auto simp: transaction_history_def rows_of_def)
next
  case True
  then obtain rows where s: "feed_sorted E d req = Inr rows"
    and p: "b = Page (length rows)
                  (slice (snd (parse_pagination req)) (fst (parse_pagination req)) rows)"
    using r by (auto simp: transaction_history_def split_beta split: sum.splits)
  have b: "set (rows_of b) \<subseteq> set rows"
    by (simp add: p rows_of_def set_slice)
  from s obtain lo hi where
    "set rows = set (map income_row (feed_incomes E d req lo hi)
                     @ map expense_row (feed_expenses E d req lo hi))"
    by (auto simp: feed_sorted_def feed_appended_def set_sort_reverse split: sum.splits)
  then have "x \<in> income_row ` set (feed_incomes E d req lo hi)
             \<or> x \<in> expense_row ` set (feed_expenses E d req lo hi)"
    using x b by auto
  then show ?thesis
    using feed_incomes_own feed_expenses_own by blast
qed

text \<open>Reading views see the caller's rows only.\<close>

lemma own_filter: "filter (\<lambda>x. P x \<and> Q x) (filter P xs) = filter (\<lambda>x. P x \<and> Q x) xs"
  by (induction xs) auto

lemma own_filter1: "filter P (filter P xs) = filter P xs"
  by (induction xs) auto

lemma feed_incomes_own_db:
  "feed_incomes E (own_db (req_user req) d) req lo hi = feed_incomes E d req lo hi"
  by (simp add: feed_incomes_def own_db_def own_filter)

lemma feed_expenses_own_db:
  "feed_expenses E (own_db (req_user req) d) req lo hi = feed_expenses E d req lo hi"
  by (simp add: feed_expenses_def own_db_def own_filter)

lemma transaction_history_own_db:
  "transaction_history E (own_db (req_user req) d) req = transaction_history E d req"
  unfolding transaction_history_def feed_sorted_def feed_appended_def feed_incomes_own_db
    feed_expenses_own_db
  by (rule refl)

lemma insights_summary_own_db:
  "insights_summary E (own_db (req_user req) d) req = insights_summary E d req"
  by (simp add: insights_summary_def insights_expenses_def insights_incomes_def own_db_def
      own_filter1)

lemma filter_types_own_db:
  "filter_types (own_db (req_user req) d) req = filter_types d req"
  by (simp add: filter_types_def present_type_slugs_def own_db_def own_filter1)


lemma feed_db_wf: "wf_db feed_db"
  by code_simp

lemma foreign_income_facts:
  "req_method feed_req \<in> set detail_methods \<and> foreign_income \<in> set (incomes feed_db)
   \<and> i_user foreign_income \<noteq> Some (req_user feed_req)"
  by code_simp

lemma own_income_list:
  "income_list ex_env feed_db feed_req = Inr (feed_db, Response (Page 1 [own_income]) 200)"
  by code_simp

text \<open>No other view writes a budget.\<close>

lemma budgets_unchanged:
  "income_list E d req = Inr (d1, r1) \<Longrightarrow> budgets d1 = budgets d"
  "expense_list E d req = Inr (d2, r2) \<Longrightarrow> budgets d2 = budgets d"
  "income_detail E d req pk = Inr (d3, r3) \<Longrightarrow> budgets d3 = budgets d"
  "expense_detail E d req pk = Inr (d4, r4) \<Longrightarrow> budgets d4 = budgets d"
  by (auto simp: income_list_def expense_list_def income_detail_def expense_detail_def
      income_update_def expense_update_def Let_def split_beta
      split: sum.splits if_splits lookup.splits
      dest!: income_create_props expense_create_props)

section \<open>The claims\<close>

subsection \<open>C1: the feed is sorted by date, then by the id as a string\<close>

text \<open>
  C1. The rows of the unified feed are the Income rows followed by the Expense rows,
  sorted into descending order of the pair (date, id as a string). The sorted list is
  a permutation of the appended one, it descends in the date and, among equal dates,
  in the lexicographic order of the ids' decimal strings, and rows with equal keys
  keep their order. So the tie-break is not numeric: \<open>"10" < "9"\<close> as strings, and
  of two rows of one date the one with id 9 has the greater key, although 9 is less
  than 10.
\<close>

theorem feed_sorted_order:
  assumes "feed_appended E d req = Inr rows"
  shows "(\<exists>min_amt max_amt. rows = map income_row (feed_incomes E d req min_amt max_amt)
                                   @ map expense_row (feed_expenses E d req min_amt max_amt))
         \<and> (\<exists>out. feed_sorted E d req = Inr out
              \<and> mset out = mset rows
              \<and> sorted_wrt (\<lambda>x y. f_date y < f_date x
                     \<or> (f_date y = f_date x \<and> str_nat (f_id y) \<le> str_nat (f_id x))) out
              \<and> (\<forall>k. filter (\<lambda>x. feed_key x = k) out = filter (\<lambda>x. feed_key x = k) rows))
         \<and> (\<forall>x y. f_date x = f_date y \<and> f_id x = 9 \<and> f_id y = 10 \<longrightarrow> feed_key y < feed_key x)
         \<and> str_nat 10 < str_nat 9"
proof -
  have 1: "\<exists>min_amt max_amt. rows = map income_row (feed_incomes E d req min_amt max_amt)
                                   @ map expense_row (feed_expenses E d req min_amt max_amt)"
    using assms by (auto simp: feed_appended_def split: sum.splits)
  have 2: "feed_sorted E d req = Inr (sort_reverse feed_key rows)"
    using assms by (simp add: feed_sorted_def)
  have 3: "sorted_wrt (\<lambda>x y. f_date y < f_date x
                     \<or> (f_date y = f_date x \<and> str_nat (f_id y) \<le> str_nat (f_id x)))
             (sort_reverse feed_key rows)"
    using sort_reverse_sorted [of feed_key rows] by (simp add: key_order)
  have 4: "\<forall>x y. f_date x = f_date y \<and> f_id x = 9 \<and> f_id y = 10 \<longrightarrow> feed_key y < feed_key x"
    using str_nat_10_9 by (simp add: feed_key_def)
  show ?thesis
    using 1 2 3 4 str_nat_10_9 by (simp add: sort_reverse_mset sort_reverse_stable)
qed

theorem feed_sorted_order_witness:
  "feed_appended ex_env feed_db feed_req = Inr [feed_row1, feed_row10, feed_row9]
   \<and> feed_sorted ex_env feed_db feed_req = Inr [feed_row9, feed_row10, feed_row1]
   \<and> f_date feed_row9 = f_date feed_row10 \<and> f_id feed_row9 = 9 \<and> f_id feed_row10 = 10
   \<and> feed_key feed_row10 < feed_key feed_row9"
proof -
  have d: "f_date feed_row9 = f_date feed_row10 \<and> f_id feed_row9 = 9 \<and> f_id feed_row10 = 10"
    by (simp add: feed_row9_def feed_row10_def)
  have q: "\<forall>x y. f_date x = f_date y \<and> f_id x = 9 \<and> f_id y = 10 \<longrightarrow> feed_key y < feed_key x"
    by (rule feed_sorted_order [OF feed_appended_ex, THEN conjunct2, THEN conjunct2, THEN conjunct1])
  have "feed_key feed_row10 < feed_key feed_row9"
    using q [rule_format, of feed_row9 feed_row10] d by simp
  with d show ?thesis
    by (simp add: feed_appended_ex feed_sorted_ex)
qed

subsection \<open>C5: pagination parameters\<close>

text \<open>
  C5, as amended. The effective limit always lies in 1..200 and the effective offset
  is never negative; the function has no error result. A numeric limit above 200
  gives 200, a numeric limit below 1 gives 1 (the clamp's lower bound, not the default
  50), a limit that is no integer or is absent gives 50. A negative offset gives 0,
  and so does an offset that is no integer or is absent.
\<close>

theorem parse_pagination_clamp:
  "1 \<le> fst (parse_pagination req) \<and> fst (parse_pagination req) \<le> 200
   \<and> 0 \<le> snd (parse_pagination req)
   \<and> (\<forall>s n. GET req ''limit'' = Some s \<and> py_int s = Some n \<longrightarrow>
          fst (parse_pagination req) = (if 200 < n then 200 else if n < 1 then 1 else n))
   \<and> (\<forall>s. GET req ''limit'' = Some s \<and> py_int s = None \<longrightarrow> fst (parse_pagination req) = 50)
   \<and> (GET req ''limit'' = None \<longrightarrow> fst (parse_pagination req) = 50)
   \<and> (\<forall>s n. GET req ''offset'' = Some s \<and> py_int s = Some n \<longrightarrow>
          snd (parse_pagination req) = (if n < 0 then 0 else n))
   \<and> (\<forall>s. GET req ''offset'' = Some s \<and> py_int s = None \<longrightarrow> snd (parse_pagination req) = 0)
   \<and> (GET req ''offset'' = None \<longrightarrow> snd (parse_pagination req) = 0)"
  unfolding parse_pagination_def get_or_def Let_def
  by (auto simp: py_int_50 py_int_0 split: option.splits)

theorem parse_pagination_clamp_witness:
  "GET page_req ''limit'' = Some ''1000'' \<and> py_int ''1000'' = Some 1000
   \<and> GET page_req ''offset'' = Some ''-3'' \<and> py_int ''-3'' = Some (- 3)
   \<and> parse_pagination page_req = (200, 0)"
proof -
  have g: "GET page_req ''limit'' = Some ''1000''" "GET page_req ''offset'' = Some ''-3''"
    by (simp_all add: page_req_def)
  have p: "py_int ''1000'' = Some 1000" "py_int ''-3'' = Some (- 3)"
    by code_simp+
  have "fst (parse_pagination page_req) = (if 200 < (1000::int) then 200 else if (1000::int) < 1 then 1 else 1000)"
    using parse_pagination_clamp [of page_req] g(1) p(1) by blast
  moreover have "snd (parse_pagination page_req) = (if (- 3::int) < 0 then 0 else - 3)"
    using parse_pagination_clamp [of page_req] g(2) p(2) by blast
  ultimately have "parse_pagination page_req = (200, 0)"
    by (simp add: prod_eq_iff)
  with g p show ?thesis by simp
qed

text \<open>
  The claim as written (a limit below 1 yields the default 50) fails at
  \<^verbatim>\<open>limit=0\<close>, where the effective limit is 1.
\<close>

theorem limit_below_one_counterexample:
  "GET zero_limit_req ''limit'' = Some ''0'' \<and> py_int ''0'' = Some 0 \<and> (0::int) < 1
   \<and> fst (parse_pagination zero_limit_req) = 1
   \<and> fst (parse_pagination zero_limit_req) \<noteq> 50"
proof -
  have "fst (parse_pagination zero_limit_req) = 1"
    by code_simp
  then show ?thesis
    by (simp add: zero_limit_req_def py_int_0)
qed

subsection \<open>C7: the count and the window of the feed\<close>

text \<open>
  C7. Whatever \<^verbatim>\<open>limit\<close> and \<^verbatim>\<open>offset\<close> a request carries, the sub-queries and the
  merged, sorted list are the same; \<^verbatim>\<open>count\<close> is the length of that whole list, and
  the results are the window of it that starts at the effective offset and has the
  effective limit as its length.
\<close>

theorem transaction_history_window:
  assumes "req_method req = ''GET''" and "feed_sorted E d req = Inr rows"
    and "req' = req\<lparr>GET := (GET req)(''limit'' := l, ''offset'' := off)\<rparr>"
  shows "feed_appended E d req' = feed_appended E d req
         \<and> feed_sorted E d req' = Inr rows
         \<and> transaction_history E d req' =
             Inr (Response (Page (length rows)
                    (take (nat (fst (parse_pagination req')))
                       (drop (nat (snd (parse_pagination req'))) rows))) 200)"
proof -
  have m: "req_method req' = ''GET''"
    using assms(1,3) by simp
  have s: "feed_sorted E d req' = Inr rows"
    using assms(2,3) by (simp add: feed_sorted_pagination)
  have a: "feed_appended E d req' = feed_appended E d req"
    using assms(3) by (simp add: feed_appended_pagination)
  show ?thesis
    using m s a by (simp add: transaction_history_def slice_def split_beta)
qed

theorem transaction_history_window_witness:
  "req_method feed_req = ''GET''
   \<and> feed_sorted ex_env feed_db feed_req = Inr [feed_row9, feed_row10, feed_row1]
   \<and> transaction_history ex_env feed_db
        (feed_req\<lparr>GET := (GET feed_req)(''limit'' := Some ''2'', ''offset'' := Some ''1'')\<rparr>)
       = Inr (Response (Page 3 [feed_row10, feed_row1]) 200)"
proof -
  have m: "req_method feed_req = ''GET''"
    by (simp add: feed_req_def)
  have pp: "parse_pagination (feed_req\<lparr>GET := (GET feed_req)(''limit'' := Some ''2'', ''offset'' := Some ''1'')\<rparr>) = (2, 1)"
    by code_simp
  show ?thesis
    using transaction_history_window [OF m feed_sorted_ex refl, of "Some ''2''" "Some ''1''"] m feed_sorted_ex pp
    by simp
qed

subsection \<open>C4: the category is required for the recognised types\<close>

text \<open>
  C4, as amended. Take an Expense create (POST to the list) or update (PUT, PATCH or
  DELETE on the caller's own row, all of which go through the serializer) whose
  supplied type, trimmed and lowercased, is one of expense, saving, savings, emis, emi,
  loans&advance, loan, loans, and whose category is blank or missing. The write fails
  with HTTP 400 and stores nothing. Its field-keyed messages are the category error
  when the other fields pass their field validators; when one of them fails, the
  messages are those of the failing fields, since the serializer's own validation runs
  only after every field has passed. With a non-blank category, or with a supplied type
  outside that list, a write whose fields pass is carried out (201, resp. 200).
\<close>

theorem category_required:
  "(lower (supplied req ''type'') \<in> set category_required_types \<and> supplied req ''category'' = [] \<longrightarrow>
      (req_method req = ''POST'' \<longrightarrow>
         expense_list E d req =
           Inr (d, Response (Errors
                  (case ExpenseSerializer_fields E False (expense_payload req) of
                     Inl fe \<Rightarrow> fe | Inr a \<Rightarrow> category_error)) 400))
      \<and> (req_method req \<in> set update_methods \<and> get_pk e_id pk (own_expenses d req) = Found obj \<longrightarrow>
         expense_detail E d req pk =
           Inr (d, Response (Errors
                  (case ExpenseSerializer_fields E (req_method req = ''PATCH'') (detail_payload req) of
                     Inl fe \<Rightarrow> fe | Inr a \<Rightarrow> category_error)) 400)))
   \<and> (supplied req ''category'' \<noteq> []
        \<or> (supplied req ''type'' \<noteq> [] \<and> lower (supplied req ''type'') \<notin> set category_required_types) \<longrightarrow>
      (\<forall>a. req_method req = ''POST''
            \<and> ExpenseSerializer_fields E False (expense_payload req) = Inr a \<longrightarrow>
         (\<exists>d' obj'. expense_list E d req = Inr (d', Response (Obj obj') 201)))
      \<and> (\<forall>a. req_method req \<in> set update_methods \<and> get_pk e_id pk (own_expenses d req) = Found obj
            \<and> ExpenseSerializer_fields E (req_method req = ''PATCH'') (detail_payload req) = Inr a \<longrightarrow>
         (\<exists>d' obj'. expense_detail E d req pk = Inr (d', Response (Obj obj') 200))))"
proof (intro conjI impI allI)
  assume h: "lower (supplied req ''type'') \<in> set category_required_types \<and> supplied req ''category'' = []"
  then have t: "lower (normal_type req) \<in> set category_required_types"
    using required_not_empty [of "supplied req ''type''"] by (simp add: normal_type_def)
  {
    assume m: "req_method req = ''POST''"
    show "expense_list E d req =
           Inr (d, Response (Errors
                  (case ExpenseSerializer_fields E False (expense_payload req) of
                     Inl fe \<Rightarrow> fe | Inr a \<Rightarrow> category_error)) 400)"
    proof (cases "ExpenseSerializer_fields E False (expense_payload req)")
      case (Inl fe)
      then show ?thesis by (simp add: create_invalid [OF m Inl])
    next
      case (Inr a)
      then show ?thesis using create_outcome [OF m Inr, of d] h t by auto
    qed
  }
  {
    assume m: "req_method req \<in> set update_methods \<and> get_pk e_id pk (own_expenses d req) = Found obj"
    then have m1: "req_method req \<in> set update_methods"
      and g: "get_pk e_id pk (filter (\<lambda>r. e_user r = Some (req_user req)) (expenses d)) = Found obj"
      by (simp_all add: own_expenses_def)
    show "expense_detail E d req pk =
           Inr (d, Response (Errors
                  (case ExpenseSerializer_fields E (req_method req = ''PATCH'') (detail_payload req) of
                     Inl fe \<Rightarrow> fe | Inr a \<Rightarrow> category_error)) 400)"
    proof (cases "ExpenseSerializer_fields E (req_method req = ''PATCH'') (detail_payload req)")
      case (Inl fe)
      then show ?thesis by (simp add: update_invalid [OF m1 g Inl])
    next
      case (Inr a)
      then show ?thesis using update_outcome [OF m1 g Inr] h t by simp
    qed
  }
next
  fix a
  assume b: "supplied req ''category'' \<noteq> []
        \<or> (supplied req ''type'' \<noteq> [] \<and> lower (supplied req ''type'') \<notin> set category_required_types)"
    and c: "req_method req = ''POST'' \<and> ExpenseSerializer_fields E False (expense_payload req) = Inr a"
  have n: "\<not> (lower (normal_type req) \<in> set category_required_types \<and> supplied req ''category'' = [])"
    using b by (auto simp: normal_type_def)
  show "\<exists>d' obj'. expense_list E d req = Inr (d', Response (Obj obj') 201)"
    using create_outcome [OF conjunct1 [OF c] conjunct2 [OF c], of d] n by auto
next
  fix a
  assume b: "supplied req ''category'' \<noteq> []
        \<or> (supplied req ''type'' \<noteq> [] \<and> lower (supplied req ''type'') \<notin> set category_required_types)"
    and c: "req_method req \<in> set update_methods \<and> get_pk e_id pk (own_expenses d req) = Found obj
            \<and> ExpenseSerializer_fields E (req_method req = ''PATCH'') (detail_payload req) = Inr a"
  have n: "\<not> (lower (normal_type req) \<in> set category_required_types \<and> supplied req ''category'' = [])"
    using b by (auto simp: normal_type_def)
  from c have m1: "req_method req \<in> set update_methods"
      and g: "get_pk e_id pk (filter (\<lambda>r. e_user r = Some (req_user req)) (expenses d)) = Found obj"
      and f: "ExpenseSerializer_fields E (req_method req = ''PATCH'') (detail_payload req) = Inr a"
    by (simp_all add: own_expenses_def)
  show "\<exists>d' obj'. expense_detail E d req pk = Inr (d', Response (Obj obj') 200)"
    using update_outcome [OF m1 g f] n by auto
qed

theorem category_required_witness:
  "lower (supplied emi_req ''type'') \<in> set category_required_types
   \<and> supplied emi_req ''category'' = [] \<and> req_method emi_req = ''POST''
   \<and> expense_list ex_env feed_db emi_req
       = Inr (feed_db, Response (Errors [(''category'', [''Category is required.''])]) 400)"
proof -
  have "expense_list ex_env feed_db emi_req =
           Inr (feed_db, Response (Errors
                  (case ExpenseSerializer_fields ex_env False (expense_payload emi_req) of
                     Inl fe \<Rightarrow> fe | Inr a \<Rightarrow> category_error)) 400)"
    using category_required [of emi_req ex_env feed_db] emi_facts by blast
  then show ?thesis
    using emi_facts by (simp add: emi_fields category_error_def)
qed

text \<open>
  The claim as written fails where another field is invalid: a create with type
  \<^verbatim>\<open>expense\<close> and neither category, amount nor date is refused with messages for
  \<^verbatim>\<open>date\<close> and \<^verbatim>\<open>amount\<close> only.
\<close>

theorem category_not_named_counterexample:
  "lower (supplied bare_req ''type'') \<in> set category_required_types
   \<and> supplied bare_req ''category'' = [] \<and> req_method bare_req = ''POST''
   \<and> expense_list ex_env feed_db bare_req
       = Inr (feed_db, Response (Errors [(''date'', [''Date has wrong format.'']),
                                         (''amount'', [''This field may not be null.''])]) 400)
   \<and> ''category'' \<notin> set (map fst [(''date'', [''Date has wrong format.'']),
                                     (''amount'', [''This field may not be null.''])])"
  using bare_facts bare_result by simp

subsection \<open>C6: the type Other, and the default type\<close>

text \<open>
  C6. When the supplied type, trimmed and lowercased, is \<^verbatim>\<open>other\<close> and the fields pass
  their validators, a create stores a new row and an update rewrites the caller's row,
  with type exactly \<^verbatim>\<open>Other\<close>, and with category \<^verbatim>\<open>Other\<close> when the supplied
  category is blank or missing and the supplied category (trimmed, as every text
  field is) otherwise; the write does not fail for a missing category. When the
  supplied type is absent or blank, every write that is carried out stores the type
  \<^verbatim>\<open>Expense\<close>.
\<close>

theorem other_type_stored:
  "(lower (supplied req ''type'') = ''other'' \<longrightarrow>
      (\<forall>a. req_method req = ''POST''
            \<and> ExpenseSerializer_fields E False (expense_payload req) = Inr a \<longrightarrow>
         (\<exists>obj'. expense_list E d req =
                    Inr (d\<lparr>expenses := expenses d @ [obj'],
                           next_expense_id := Suc (next_expense_id d)\<rparr>, Response (Obj obj') 201)
            \<and> e_type obj' = ''Other''
            \<and> e_category obj' = (if supplied req ''category'' = [] then ''Other''
                                  else supplied req ''category'')))
      \<and> (\<forall>a. req_method req \<in> set update_methods \<and> get_pk e_id pk (own_expenses d req) = Found obj
            \<and> ExpenseSerializer_fields E (req_method req = ''PATCH'') (detail_payload req) = Inr a \<longrightarrow>
         (\<exists>obj'. expense_detail E d req pk =
                    Inr (d\<lparr>expenses := map (\<lambda>r. if e_id r = e_id obj then obj' else r) (expenses d)\<rparr>,
                         Response (Obj obj') 200)
            \<and> e_type obj' = ''Other''
            \<and> e_category obj' = (if supplied req ''category'' = [] then ''Other''
                                  else supplied req ''category''))))
   \<and> (supplied req ''type'' = [] \<longrightarrow>
      (\<forall>d' obj'. req_method req = ''POST''
            \<and> expense_list E d req = Inr (d', Response (Obj obj') 201) \<longrightarrow> e_type obj' = ''Expense'')
      \<and> (\<forall>d' obj'. req_method req \<in> set update_methods
            \<and> get_pk e_id pk (own_expenses d req) = Found obj
            \<and> expense_detail E d req pk = Inr (d', Response (Obj obj') 200) \<longrightarrow>
          e_type obj' = ''Expense''))"
proof (intro conjI impI allI)
  fix a
  assume o: "lower (supplied req ''type'') = ''other''"
    and c: "req_method req = ''POST'' \<and> ExpenseSerializer_fields E False (expense_payload req) = Inr a"
  have t: "lower (normal_type req) = ''other''"
    using o by (auto simp: normal_type_def lower_Nil)
  have n: "lower (normal_type req) \<notin> set category_required_types"
    using t other_not_required by simp
  show "\<exists>obj'. expense_list E d req =
                    Inr (d\<lparr>expenses := expenses d @ [obj'],
                           next_expense_id := Suc (next_expense_id d)\<rparr>, Response (Obj obj') 201)
            \<and> e_type obj' = ''Other''
            \<and> e_category obj' = (if supplied req ''category'' = [] then ''Other''
                                  else supplied req ''category'')"
    using create_outcome [OF conjunct1 [OF c] conjunct2 [OF c], of d] t n by auto
next
  fix a
  assume o: "lower (supplied req ''type'') = ''other''"
    and c: "req_method req \<in> set update_methods \<and> get_pk e_id pk (own_expenses d req) = Found obj
            \<and> ExpenseSerializer_fields E (req_method req = ''PATCH'') (detail_payload req) = Inr a"
  have t: "lower (normal_type req) = ''other''"
    using o by (auto simp: normal_type_def lower_Nil)
  have n: "lower (normal_type req) \<notin> set category_required_types"
    using t other_not_required by simp
  from c have m1: "req_method req \<in> set update_methods"
      and g: "get_pk e_id pk (filter (\<lambda>r. e_user r = Some (req_user req)) (expenses d)) = Found obj"
      and f: "ExpenseSerializer_fields E (req_method req = ''PATCH'') (detail_payload req) = Inr a"
    by (simp_all add: own_expenses_def)
  show "\<exists>obj'. expense_detail E d req pk =
                    Inr (d\<lparr>expenses := map (\<lambda>r. if e_id r = e_id obj then obj' else r) (expenses d)\<rparr>,
                         Response (Obj obj') 200)
            \<and> e_type obj' = ''Other''
            \<and> e_category obj' = (if supplied req ''category'' = [] then ''Other''
                                  else supplied req ''category'')"
    using update_outcome [OF m1 g f] t n by (simp add: expense_apply_def or_else_def)
next
  fix d' obj'
  assume e: "supplied req ''type'' = []"
    and c: "req_method req = ''POST'' \<and> expense_list E d req = Inr (d', Response (Obj obj') 201)"
  have t: "normal_type req = ''Expense''"
    using e by (simp add: normal_type_def)
  show "e_type obj' = ''Expense''"
  proof (cases "ExpenseSerializer_fields E False (expense_payload req)")
    case (Inl fe)
    then show ?thesis using c create_invalid [OF conjunct1 [OF c] Inl, of d] by simp
  next
    case (Inr a)
    then show ?thesis
      using c create_outcome [OF conjunct1 [OF c] Inr, of d] t
      by (auto simp: lower_Expense split: if_splits)
  qed
next
  fix d' obj'
  assume e: "supplied req ''type'' = []"
    and c: "req_method req \<in> set update_methods \<and> get_pk e_id pk (own_expenses d req) = Found obj
            \<and> expense_detail E d req pk = Inr (d', Response (Obj obj') 200)"
  have t: "normal_type req = ''Expense''"
    using e by (simp add: normal_type_def)
  from c have m1: "req_method req \<in> set update_methods"
      and g: "get_pk e_id pk (filter (\<lambda>r. e_user r = Some (req_user req)) (expenses d)) = Found obj"
    by (simp_all add: own_expenses_def)
  show "e_type obj' = ''Expense''"
  proof (cases "ExpenseSerializer_fields E (req_method req = ''PATCH'') (detail_payload req)")
    case (Inl fe)
    then show ?thesis using c update_invalid [OF m1 g Inl] by simp
  next
    case (Inr a)
    then show ?thesis
      using c update_outcome [OF m1 g Inr] t
      by (auto simp: lower_Expense expense_apply_def or_else_def split: if_splits)
  qed
qed

theorem other_type_stored_witness:
  "lower (supplied other_req ''type'') = ''other'' \<and> supplied other_req ''category'' = []
   \<and> req_method other_req = ''POST''
   \<and> expense_list ex_env feed_db other_req =
       Inr (feed_db\<lparr>expenses := expenses feed_db @ [other_obj],
                    next_expense_id := Suc (next_expense_id feed_db)\<rparr>, Response (Obj other_obj) 201)
   \<and> e_type other_obj = ''Other'' \<and> e_category other_obj = ''Other''"
proof -
  have "\<exists>obj'. expense_list ex_env feed_db other_req =
                    Inr (feed_db\<lparr>expenses := expenses feed_db @ [obj'],
                           next_expense_id := Suc (next_expense_id feed_db)\<rparr>, Response (Obj obj') 201)
            \<and> e_type obj' = ''Other''
            \<and> e_category obj' = (if supplied other_req ''category'' = [] then ''Other''
                                  else supplied other_req ''category'')"
    using other_type_stored [of other_req ex_env feed_db] other_facts other_fields by blast
  then obtain obj' where
    o: "expense_list ex_env feed_db other_req =
                    Inr (feed_db\<lparr>expenses := expenses feed_db @ [obj'],
                           next_expense_id := Suc (next_expense_id feed_db)\<rparr>, Response (Obj obj') 201)"
    and p: "e_type obj' = ''Other''"
      "e_category obj' = (if supplied other_req ''category'' = [] then ''Other''
                                  else supplied other_req ''category'')"
    by blast
  from o have "obj' = other_obj"
    by (simp add: other_result)
  with p other_facts other_result show ?thesis
    by simp
qed

subsection \<open>C2: budget against actual\<close>

text \<open>
  C2. Budgets are stored by the list endpoint only, through the serializer, which
  trims the subcategory; so the stored budgets carry no blanks around their
  subcategory, and storing one more keeps it so. On such a database a GET of the
  insights answers with one row per Budget row of the caller, and the row of a budget
  carries the budget's category and subcategory, \<^verbatim>\<open>planned\<close> its amount, \<^verbatim>\<open>actual\<close>
  the sum below, and \<^verbatim>\<open>difference\<close> actual minus planned. With the budget's category
  trimmed and lowercased: for \<^verbatim>\<open>expense\<close> the sum runs over the caller's Expense rows
  in scope whose category equals the budget's subcategory up to letter case; for
  \<^verbatim>\<open>saving\<close> or \<^verbatim>\<open>savings\<close> over the caller's Income rows in scope whose remark or
  source contains the budget's subcategory up to letter case; it is 0 for any other
  category. The scope is the current calendar month for \<^verbatim>\<open>scope=month\<close>, and every
  date for \<^verbatim>\<open>scope=all\<close>.
\<close>

theorem insights_rows:
  "(\<forall>d' bd s. trimmed_budgets d \<and> budget_list E d req = Inr (d', Response bd s) \<longrightarrow>
       trimmed_budgets d')
   \<and> (req_method req = ''GET'' \<longrightarrow>
      (\<exists>bs. insights_summary E d req =
               Response (Rows (map (insight E (insights_expenses E d req)
                                      (insights_incomes E d req)) bs)) 200
             \<and> mset bs = mset (filter (\<lambda>b. b_user b = Some (req_user req)) (budgets d))))
   \<and> (trimmed_budgets d \<and> b \<in> set (budgets d) \<longrightarrow>
      (let r = insight E (insights_expenses E d req) (insights_incomes E d req) b;
           cat = lower (strip (b_category b))
       in category r = b_category b \<and> subcategory r = b_subcategory b
          \<and> planned r = to_float E (b_amount b)
          \<and> difference r = float_sub E (actual r) (planned r)
          \<and> actual r = to_float E
               (if cat = ''expense''
                then sum_list (map e_amount
                       (filter (\<lambda>x. e_user x = Some (req_user req) \<and> in_scope E req (e_date x)
                                    \<and> iexact (e_category x) (b_subcategory b)) (expenses d)))
                else if cat = ''saving'' \<or> cat = ''savings''
                then sum_list (map i_amount
                       (filter (\<lambda>x. i_user x = Some (req_user req) \<and> in_scope E req (i_date x)
                                    \<and> (icontains (i_remark x) (b_subcategory b)
                                         \<or> icontains (i_source x) (b_subcategory b)))
                          (incomes d)))
                else 0)))"
proof (intro conjI impI allI)
  fix d' bd s
  assume "trimmed_budgets d \<and> budget_list E d req = Inr (d', Response bd s)"
  then show "trimmed_budgets d'"
    using budget_list_trimmed by blast
next
  assume "req_method req = ''GET''"
  then have "insights_summary E d req =
               Response (Rows (map (insight E (insights_expenses E d req)
                                      (insights_incomes E d req))
                  (order_desc b_date b_id
                     (filter (\<lambda>b. b_user b = Some (req_user req)) (budgets d))))) 200"
    by (simp add: insights_summary_def)
  then show "\<exists>bs. insights_summary E d req =
               Response (Rows (map (insight E (insights_expenses E d req)
                                      (insights_incomes E d req)) bs)) 200
             \<and> mset bs = mset (filter (\<lambda>b. b_user b = Some (req_user req)) (budgets d))"
    using mset_order_desc by blast
next
  assume "trimmed_budgets d \<and> b \<in> set (budgets d)"
  then have t: "strip (b_subcategory b) = b_subcategory b"
    by (simp add: trimmed_budgets_def list_all_iff)
  show "let r = insight E (insights_expenses E d req) (insights_incomes E d req) b;
           cat = lower (strip (b_category b))
       in category r = b_category b \<and> subcategory r = b_subcategory b
          \<and> planned r = to_float E (b_amount b)
          \<and> difference r = float_sub E (actual r) (planned r)
          \<and> actual r = to_float E
               (if cat = ''expense''
                then sum_list (map e_amount
                       (filter (\<lambda>x. e_user x = Some (req_user req) \<and> in_scope E req (e_date x)
                                    \<and> iexact (e_category x) (b_subcategory b)) (expenses d)))
                else if cat = ''saving'' \<or> cat = ''savings''
                then sum_list (map i_amount
                       (filter (\<lambda>x. i_user x = Some (req_user req) \<and> in_scope E req (i_date x)
                                    \<and> (icontains (i_remark x) (b_subcategory b)
                                         \<or> icontains (i_source x) (b_subcategory b)))
                          (incomes d)))
                else 0)"
    using insight_row [of E d req b] by (simp add: Let_def t)
qed

theorem insights_rows_witness:
  "trimmed_budgets feed_db
   \<and> budget_list ex_env feed_db budget_req = Inr (insights_db, Response (Obj food_budget) 201)
   \<and> trimmed_budgets insights_db \<and> food_budget \<in> set (budgets insights_db)
   \<and> req_method feed_req = ''GET''
   \<and> lower (strip (b_category food_budget)) = ''expense''
   \<and> insights_summary ex_env insights_db feed_req =
       Response (Rows [insight ex_env (insights_expenses ex_env insights_db feed_req)
                         (insights_incomes ex_env insights_db feed_req) food_budget]) 200
   \<and> actual (insight ex_env (insights_expenses ex_env insights_db feed_req)
                (insights_incomes ex_env insights_db feed_req) food_budget)
       = sum_list (map e_amount
           (filter (\<lambda>x. e_user x = Some (req_user feed_req) \<and> in_scope ex_env feed_req (e_date x)
                        \<and> iexact (e_category x) (b_subcategory food_budget))
              (expenses insights_db)))
   \<and> actual (insight ex_env (insights_expenses ex_env insights_db feed_req)
                (insights_incomes ex_env insights_db feed_req) food_budget) = 40"
proof -
  have "\<forall>d' bd s. trimmed_budgets feed_db
            \<and> budget_list ex_env feed_db budget_req = Inr (d', Response bd s) \<longrightarrow>
          trimmed_budgets d'"
    by (rule insights_rows [of feed_db ex_env budget_req food_budget, THEN conjunct1])
  then have 1: "trimmed_budgets insights_db"
    using insights_db_trimmed budget_post_ex by blast
  have 2: "trimmed_budgets insights_db \<and> food_budget \<in> set (budgets insights_db)"
    using 1 insights_db_trimmed by simp
  have "actual (insight ex_env (insights_expenses ex_env insights_db feed_req)
                (insights_incomes ex_env insights_db feed_req) food_budget)
       = to_float ex_env (sum_list (map e_amount
           (filter (\<lambda>x. e_user x = Some (req_user feed_req) \<and> in_scope ex_env feed_req (e_date x)
                        \<and> iexact (e_category x) (b_subcategory food_budget))
              (expenses insights_db))))"
    using insights_rows [of insights_db ex_env feed_req food_budget] 2
    by (simp add: Let_def food_budget_facts)
  moreover have "to_float ex_env = (\<lambda>x. x)"
    by (simp add: ex_env_def)
  ultimately show ?thesis
    using 2 by (simp add: food_budget_facts insights_ex insight_ex trimmed_sum budget_post_ex
        insights_db_trimmed)
qed

subsection \<open>C8: variant spellings in the unified feed\<close>

text \<open>
  C8. The label \<^verbatim>\<open>Saving\<close> belongs to the slug \<^verbatim>\<open>savings\<close>, and the expense list
  filtered by that slug returns the row stored with it. The unified feed filtered by
  the same slug compares the type with the one label \<^verbatim>\<open>Savings\<close> and returns nothing.
\<close>

theorem feed_misses_variant_label:
  "saving_row \<in> set (expenses feed_db) \<and> e_type saving_row = ''Saving''
   \<and> ''Saving'' \<in> set (labels_for_slug ''savings'')
   \<and> expense_list ex_env feed_db savings_req = Inr (feed_db, Response (Page 1 [saving_row]) 200)
   \<and> transaction_history ex_env feed_db savings_req = Inr (Response (Page 0 []) 200)"
  by code_simp

subsection \<open>C9: letter case in the slug mapper\<close>

text \<open>
  C9. A row stored with the type \<^verbatim>\<open>expense\<close> differs from the label \<^verbatim>\<open>Expense\<close> in
  letter case only. The caller's slug list does not name \<^verbatim>\<open>expense\<close>, and the expense
  list filtered by that slug does not return the row; the unified feed, which compares
  up to letter case, does.
\<close>

theorem slug_mapper_is_case_sensitive:
  "expenses case_db = [lowercase_row] \<and> lower (e_type lowercase_row) = lower ''Expense''
   \<and> ''Expense'' \<in> set (labels_for_slug ''expense'')
   \<and> filter_types case_db expense_req = Response (Rows [''all'', ''income'']) 200
   \<and> expense_list ex_env case_db expense_req = Inr (case_db, Response (Page 0 []) 200)
   \<and> transaction_history ex_env case_db expense_req
       = Inr (Response (Page 1 [expense_row lowercase_row]) 200)"
  by code_simp

subsection \<open>C10: the slug expense on the two endpoints\<close>

text \<open>
  C10. With the same type slug, date range and no other filter, the expense list
  selects the row stored as \<^verbatim>\<open>Expenses\<close> and not the one stored as \<^verbatim>\<open>expense\<close>; the
  unified feed selects the one stored as \<^verbatim>\<open>expense\<close> and not the one stored as
  \<^verbatim>\<open>Expenses\<close>.
\<close>

theorem expense_slug_selections_differ:
  "expenses variant_db = [lowercase_row, plural_row]
   \<and> expense_list ex_env variant_db expense_range_req
       = Inr (variant_db, Response (Page 1 [plural_row]) 200)
   \<and> transaction_history ex_env variant_db expense_range_req
       = Inr (Response (Page 1 [expense_row lowercase_row]) 200)"
  by code_simp

subsection \<open>C3: per-user isolation\<close>

text \<open>
  C3. On a database with unique primary keys, for every request of an authenticated
  caller: whatever a list or detail endpoint answers, the database stays well formed,
  the rows of every other user are the same as before, and every row in the answer
  carries the caller as its user; a created row is appended with the caller as its
  user, whatever the body says; an update leaves the user and the key of every row as
  they were. Detail access to a row of another user answers 404 and changes nothing.
  Every row of the unified feed is made from an Income or Expense row of the caller,
  and the feed, the insights and the type filters answer as they would on the
  caller's rows alone. (Budgets have no detail endpoint.)
\<close>

theorem per_user_isolation:
  assumes "wf_db d"
  shows "(\<forall>d' b s. income_list E d req = Inr (d', Response b s) \<longrightarrow>
            wf_db d' \<and> foreign_rows (req_user req) d' = foreign_rows (req_user req) d
            \<and> list_all (\<lambda>x. i_user x = Some (req_user req)) (rows_of b)
            \<and> (\<forall>obj. b = Obj obj \<longrightarrow> incomes d' = incomes d @ [obj]))
       \<and> (\<forall>d' b s. expense_list E d req = Inr (d', Response b s) \<longrightarrow>
            wf_db d' \<and> foreign_rows (req_user req) d' = foreign_rows (req_user req) d
            \<and> list_all (\<lambda>x. e_user x = Some (req_user req)) (rows_of b)
            \<and> (\<forall>obj. b = Obj obj \<longrightarrow> expenses d' = expenses d @ [obj]))
       \<and> (\<forall>d' b s. budget_list E d req = Inr (d', Response b s) \<longrightarrow>
            wf_db d' \<and> foreign_rows (req_user req) d' = foreign_rows (req_user req) d
            \<and> list_all (\<lambda>x. b_user x = Some (req_user req)) (rows_of b)
            \<and> (\<forall>obj. b = Obj obj \<longrightarrow> budgets d' = budgets d @ [obj]))
       \<and> (\<forall>pk d' b s. income_detail E d req pk = Inr (d', Response b s) \<longrightarrow>
            wf_db d' \<and> foreign_rows (req_user req) d' = foreign_rows (req_user req) d
            \<and> list_all (\<lambda>x. i_user x = Some (req_user req)) (rows_of b)
            \<and> map i_user (incomes d') = map i_user (incomes d)
            \<and> map i_id (incomes d') = map i_id (incomes d))
       \<and> (\<forall>pk d' b s. expense_detail E d req pk = Inr (d', Response b s) \<longrightarrow>
            wf_db d' \<and> foreign_rows (req_user req) d' = foreign_rows (req_user req) d
            \<and> list_all (\<lambda>x. e_user x = Some (req_user req)) (rows_of b)
            \<and> map e_user (expenses d') = map e_user (expenses d)
            \<and> map e_id (expenses d') = map e_id (expenses d))
       \<and> (\<forall>x. req_method req \<in> set detail_methods \<and> x \<in> set (incomes d)
                \<and> i_user x \<noteq> Some (req_user req) \<longrightarrow>
            income_detail E d req (i_id x) = Inr (d, Response (Detail ''Not found.'') 404))
       \<and> (\<forall>x. req_method req \<in> set detail_methods \<and> x \<in> set (expenses d)
                \<and> e_user x \<noteq> Some (req_user req) \<longrightarrow>
            expense_detail E d req (e_id x) = Inr (d, Response (Detail ''Not found.'') 404))
       \<and> (\<forall>b s x. transaction_history E d req = Inr (Response b s) \<and> x \<in> set (rows_of b) \<longrightarrow>
            (\<exists>r\<in>set (incomes d). i_user r = Some (req_user req) \<and> x = income_row r)
            \<or> (\<exists>r\<in>set (expenses d). e_user r = Some (req_user req) \<and> x = expense_row r))
       \<and> transaction_history E (own_db (req_user req) d) req = transaction_history E d req
       \<and> insights_summary E (own_db (req_user req) d) req = insights_summary E d req
       \<and> filter_types (own_db (req_user req) d) req = filter_types d req"
proof -
  have 1: "\<forall>d' b s. income_list E d req = Inr (d', Response b s) \<longrightarrow>
            wf_db d' \<and> foreign_rows (req_user req) d' = foreign_rows (req_user req) d
            \<and> list_all (\<lambda>x. i_user x = Some (req_user req)) (rows_of b)
            \<and> (\<forall>obj. b = Obj obj \<longrightarrow> incomes d' = incomes d @ [obj])"
    by (intro allI impI) (rule income_list_isolated [OF assms])
  have 2: "\<forall>d' b s. expense_list E d req = Inr (d', Response b s) \<longrightarrow>
            wf_db d' \<and> foreign_rows (req_user req) d' = foreign_rows (req_user req) d
            \<and> list_all (\<lambda>x. e_user x = Some (req_user req)) (rows_of b)
            \<and> (\<forall>obj. b = Obj obj \<longrightarrow> expenses d' = expenses d @ [obj])"
    by (intro allI impI) (rule expense_list_isolated [OF assms])
  have 3: "\<forall>d' b s. budget_list E d req = Inr (d', Response b s) \<longrightarrow>
            wf_db d' \<and> foreign_rows (req_user req) d' = foreign_rows (req_user req) d
            \<and> list_all (\<lambda>x. b_user x = Some (req_user req)) (rows_of b)
            \<and> (\<forall>obj. b = Obj obj \<longrightarrow> budgets d' = budgets d @ [obj])"
    by (intro allI impI) (rule budget_list_isolated [OF assms])
  have 4: "\<forall>pk d' b s. income_detail E d req pk = Inr (d', Response b s) \<longrightarrow>
            wf_db d' \<and> foreign_rows (req_user req) d' = foreign_rows (req_user req) d
            \<and> list_all (\<lambda>x. i_user x = Some (req_user req)) (rows_of b)
            \<and> map i_user (incomes d') = map i_user (incomes d)
            \<and> map i_id (incomes d') = map i_id (incomes d)"
    by (intro allI impI) (rule income_detail_isolated [OF assms])
  have 5: "\<forall>pk d' b s. expense_detail E d req pk = Inr (d', Response b s) \<longrightarrow>
            wf_db d' \<and> foreign_rows (req_user req) d' = foreign_rows (req_user req) d
            \<and> list_all (\<lambda>x. e_user x = Some (req_user req)) (rows_of b)
            \<and> map e_user (expenses d') = map e_user (expenses d)
            \<and> map e_id (expenses d') = map e_id (expenses d)"
    by (intro allI impI) (rule expense_detail_isolated [OF assms])
  have 6: "\<forall>x. req_method req \<in> set detail_methods \<and> x \<in> set (incomes d)
                \<and> i_user x \<noteq> Some (req_user req) \<longrightarrow>
            income_detail E d req (i_id x) = Inr (d, Response (Detail ''Not found.'') 404)"
    using income_detail_foreign [OF assms] by blast
  have 7: "\<forall>x. req_method req \<in> set detail_methods \<and> x \<in> set (expenses d)
                \<and> e_user x \<noteq> Some (req_user req) \<longrightarrow>
            expense_detail E d req (e_id x) = Inr (d, Response (Detail ''Not found.'') 404)"
    using expense_detail_foreign [OF assms] by blast
  have 8: "\<forall>b s x. transaction_history E d req = Inr (Response b s) \<and> x \<in> set (rows_of b) \<longrightarrow>
            (\<exists>r\<in>set (incomes d). i_user r = Some (req_user req) \<and> x = income_row r)
            \<or> (\<exists>r\<in>set (expenses d). e_user r = Some (req_user req) \<and> x = expense_row r)"
    using feed_rows_own by blast
  show ?thesis
    using 1 2 3 4 5 6 7 8
    by (simp only: transaction_history_own_db insights_summary_own_db filter_types_own_db
        simp_thms)
qed

theorem per_user_isolation_witness:
  "wf_db feed_db \<and> req_method feed_req \<in> set detail_methods
   \<and> foreign_income \<in> set (incomes feed_db) \<and> i_user foreign_income \<noteq> Some (req_user feed_req)
   \<and> income_detail ex_env feed_db feed_req (i_id foreign_income)
        = Inr (feed_db, Response (Detail ''Not found.'') 404)
   \<and> income_list ex_env feed_db feed_req = Inr (feed_db, Response (Page 1 [own_income]) 200)
   \<and> list_all (\<lambda>x. i_user x = Some (req_user feed_req)) (rows_of (Page 1 [own_income]))"
proof -
  note t = per_user_isolation [OF feed_db_wf, of ex_env feed_req]
  have a: "\<forall>x. req_method feed_req \<in> set detail_methods \<and> x \<in> set (incomes feed_db)
                \<and> i_user x \<noteq> Some (req_user feed_req) \<longrightarrow>
            income_detail ex_env feed_db feed_req (i_id x)
              = Inr (feed_db, Response (Detail ''Not found.'') 404)"
    using t by (elim conjE)
  have b: "\<forall>d' b s. income_list ex_env feed_db feed_req = Inr (d', Response b s) \<longrightarrow>
            wf_db d' \<and> foreign_rows (req_user feed_req) d' = foreign_rows (req_user feed_req) feed_db
            \<and> list_all (\<lambda>x. i_user x = Some (req_user feed_req)) (rows_of b)
            \<and> (\<forall>obj. b = Obj obj \<longrightarrow> incomes d' = incomes feed_db @ [obj])"
    using t by (elim conjE)
  have "income_detail ex_env feed_db feed_req (i_id foreign_income)
          = Inr (feed_db, Response (Detail ''Not found.'') 404)"
    using a [rule_format, OF foreign_income_facts] .
  moreover have "list_all (\<lambda>x. i_user x = Some (req_user feed_req)) (rows_of (Page 1 [own_income]))"
    using b [rule_format, OF own_income_list] by simp
  ultimately show ?thesis
    using feed_db_wf foreign_income_facts own_income_list by simp
qed

end
